theory Spec2Isabelle
  imports Complex_Main "HOL-Library.Multiset"
begin

section \<open>JavaScript objects used as dictionaries\<close>

text \<open>
  \<^verbatim>\<open>window.UserLayerManager.uploaded\<close>, \<^verbatim>\<open>.repo\<close>, the \<^verbatim>\<open>groups\<close> object of
  \<^verbatim>\<open>groupRepoLayers\<close> and a CSV row are plain objects keyed by strings. An object is
  modelled by its own properties, as an association list in order of property creation.
  Assigning to an existing key keeps its position, \<^verbatim>\<open>delete\<close> removes the pair.
  A \<^verbatim>\<open>for (const id in o)\<close> loop visits the keys that are canonical array indices first,
  in ascending numeric order, and then all other keys in order of creation; the members
  of \<^verbatim>\<open>Object.prototype\<close> are not enumerable and are not visited.
  A read \<^verbatim>\<open>o[k]\<close> goes through the prototype chain: when \<open>k\<close> is not an own key
  but the name of a member of \<^verbatim>\<open>Object.prototype\<close>, the read yields that member, a
  function (or, for \<^verbatim>\<open>__proto__\<close>, the prototype object), which is truthy.
  \<^verbatim>\<open>Object.prototype\<close> is taken to be the standard one.
\<close>

type_synonym 'v obj = "(string \<times> 'v) list"

definition obj_get :: "'v obj \<Rightarrow> string \<Rightarrow> 'v option" where
  "obj_get ob k = map_of ob k"

fun obj_set :: "'v obj \<Rightarrow> string \<Rightarrow> 'v \<Rightarrow> 'v obj" where
  "obj_set [] k v = [(k, v)]"
| "obj_set ((k', v') # rest) k v =
     (if k' = k then (k, v) # rest else (k', v') # obj_set rest k v)"

text \<open>The members of \<^verbatim>\<open>Object.prototype\<close>, each with the \<^verbatim>\<open>length\<close> a read of it
  has: the number of parameters of the function, and 0 for \<^verbatim>\<open>__proto__\<close>, whose value has
  no \<^verbatim>\<open>length\<close>.\<close>

definition object_prototype :: "(string \<times> nat) list" where
  "object_prototype =
     [(''constructor'', 1), (''__defineGetter__'', 2), (''__defineSetter__'', 2),
      (''hasOwnProperty'', 1), (''__lookupGetter__'', 1), (''__lookupSetter__'', 1),
      (''isPrototypeOf'', 1), (''propertyIsEnumerable'', 1), (''toString'', 0),
      (''valueOf'', 0), (''__proto__'', 0), (''toLocaleString'', 0)]"

definition inherited :: "string \<Rightarrow> bool" where
  "inherited k = (map_of object_prototype k \<noteq> None)"


text \<open>The value of a read \<^verbatim>\<open>o[k]\<close>: an own property, an inherited member, or
  \<^verbatim>\<open>undefined\<close>.\<close>

datatype 'v lookup = Own 'v | Inherited | Missing

definition obj_read :: "'v obj \<Rightarrow> string \<Rightarrow> 'v lookup" where
  "obj_read ob k =
     (case obj_get ob k of
        Some v \<Rightarrow> Own v
      | None \<Rightarrow> if inherited k then Inherited else Missing)"

definition obj_delete :: "'v obj \<Rightarrow> string \<Rightarrow> 'v obj" where
  "obj_delete ob k = filter (\<lambda>p. fst p \<noteq> k) ob"

definition is_digit :: "char \<Rightarrow> bool" where
  "is_digit c = (c \<in> set ''0123456789'')"

definition digit_val :: "char \<Rightarrow> nat" where
  "digit_val c = of_char c - 48"

definition str_nat :: "string \<Rightarrow> nat" where
  "str_nat s = foldl (\<lambda>acc c. 10 * acc + digit_val c) 0 s"

text \<open>A canonical array index: the decimal numeral, without leading zeros, of an integer
  from 0 to 2^32 - 2.\<close>

definition is_array_index :: "string \<Rightarrow> bool" where
  "is_array_index s =
     (s \<noteq> [] \<and> list_all is_digit s \<and> (s = ''0'' \<or> hd s \<noteq> CHR ''0'')
      \<and> str_nat s < 4294967295)"

definition for_in :: "'v obj \<Rightarrow> (string \<times> 'v) list" where
  "for_in ob =
     sort_key (\<lambda>p. str_nat (fst p)) (filter (\<lambda>p. is_array_index (fst p)) ob)
     @ filter (\<lambda>p. \<not> is_array_index (fst p)) ob"

section \<open>The layer registry\<close>

text \<open>
  A registry entry \<^verbatim>\<open>{ id, name, layer, features, active, opacity, meta }\<close>. The layer
  handle is opaque and may be \<^verbatim>\<open>undefined\<close>; \<^verbatim>\<open>features\<close> is \<open>None\<close> when the field
  does not hold an array; \<^verbatim>\<open>active\<close> is \<open>None\<close> when the flag is absent.
\<close>

record meta =
  mtype :: "string option"
  murl :: "string option"
  msource :: "string option"
  mfileName :: "string option"
  mlabelField :: "string option"

record ('l, 'f) entry =
  eid :: string
  ename :: string
  layer :: "'l option"
  features :: "'f list option"
  active :: "bool option"
  opacity :: rat
  emeta :: meta

record ('l, 'f) registry =
  uploaded :: "('l, 'f) entry obj"
  repo :: "('l, 'f) entry obj"

text \<open>\<^verbatim>\<open>if (d?.active && Array.isArray(d.features)) out.push(...d.features)\<close>\<close>

definition contribution :: "('l, 'f) entry \<Rightarrow> 'f list" where
  "contribution d =
     (if active d = Some True then (case features d of Some fs \<Rightarrow> fs | None \<Rightarrow> []) else [])"

fun push_active :: "'f list \<Rightarrow> (string \<times> ('l, 'f) entry) list \<Rightarrow> 'f list" where
  "push_active out [] = out"
| "push_active out ((k, d) # rest) = push_active (out @ contribution d) rest"

definition getAllActiveFeatures :: "('l, 'f) registry \<Rightarrow> 'f list" where
  "getAllActiveFeatures r = push_active (push_active [] (for_in (uploaded r))) (for_in (repo r))"

text \<open>The claimed result, in the words of the specification: the features of the active
  entries, uploaded partition first, each partition in insertion order.\<close>

definition feature_list :: "('l, 'f) entry \<Rightarrow> 'f list" where
  "feature_list d = (case features d of Some fs \<Rightarrow> fs | None \<Rightarrow> [])"

definition active_entries :: "(string \<times> ('l, 'f) entry) list \<Rightarrow> ('l, 'f) entry list" where
  "active_entries xs =
     filter (\<lambda>d. active d = Some True \<and> features d \<noteq> None) (map snd xs)"

definition spec_getAllActiveFeatures :: "('l, 'f) registry \<Rightarrow> 'f list" where
  "spec_getAllActiveFeatures r =
     concat (map feature_list (active_entries (uploaded r) @ active_entries (repo r)))"

section \<open>Layer configs and the label field\<close>

text \<open>
  A repo layer config \<^verbatim>\<open>{ id, name, type, url, labelField, metaUrl }\<close>. An optional
  field is \<open>None\<close> when it is absent (or holds a falsy value that is not a string).
  The empty string is falsy as well.
\<close>

record config =
  cid :: string
  cname :: string
  ctype :: "string option"
  curl :: string
  clabelField :: "string option"
  cmetaUrl :: "string option"

definition truthy :: "string option \<Rightarrow> bool" where
  "truthy v = (case v of None \<Rightarrow> False | Some s \<Rightarrow> s \<noteq> [])"

datatype exn = TypeError | Thrown

text \<open>\<^verbatim>\<open>window.LayerStyle.guessLabelProperty\<close>, when present: an external service that
  returns a property name or nothing, or throws.\<close>

type_synonym 'f guesser = "'f list \<Rightarrow> exn + string option"

text \<open>\<^verbatim>\<open>computeLabelField(cfg, features)\<close>; the argument \<open>features\<close> is \<open>None\<close> when it
  is \<^verbatim>\<open>null\<close>, \<^verbatim>\<open>undefined\<close> or another value without a \<^verbatim>\<open>length\<close>.\<close>

definition computeLabelField ::
  "'f guesser option \<Rightarrow> config \<Rightarrow> 'f list option \<Rightarrow> exn + string option" where
  "computeLabelField guess cfg feats =
     (case feats of
        None \<Rightarrow> Inr None
      | Some fs \<Rightarrow>
          if fs = [] then Inr None
          else if truthy (clabelField cfg) then Inr (clabelField cfg)
          else if ctype cfg = Some ''municipality'' then Inr (Some ''NAME_1'')
          else if ctype cfg = Some ''zone'' then Inr (Some ''zone'')
          else (case guess of Some g \<Rightarrow> g fs | None \<Rightarrow> Inr None))"

text \<open>The precedence in the words of the specification: explicit field, then type default,
  then the guess, then null (empty feature list, or nothing applies).\<close>

definition spec_resolveLabelField ::
  "'f guesser option \<Rightarrow> config \<Rightarrow> 'f list option \<Rightarrow> exn + string option" where
  "spec_resolveLabelField guess cfg feats =
     (if clabelField cfg \<noteq> None then Inr (clabelField cfg)
      else if ctype cfg = Some ''municipality'' then Inr (Some ''NAME_1'')
      else if ctype cfg = Some ''zone'' then Inr (Some ''zone'')
      else (case (guess, feats) of
              (Some g, Some (f # fs)) \<Rightarrow> g (f # fs)
            | _ \<Rightarrow> Inr None))"

section \<open>Grouping of repo layers\<close>

text \<open>\<^verbatim>\<open>const t = cfg.type || "other"\<close>\<close>

definition effective_type :: "config \<Rightarrow> string" where
  "effective_type cfg =
     (case ctype cfg of None \<Rightarrow> ''other'' | Some t \<Rightarrow> if t = [] then ''other'' else t)"

text \<open>The loop body \<^verbatim>\<open>if (!groups[t]) groups[t] = []; groups[t].push(cfg)\<close>. A bucket
  is an array and truthy. When \<open>t\<close> names a member of \<^verbatim>\<open>Object.prototype\<close> the read is
  truthy, no bucket is created, and the member has no \<^verbatim>\<open>push\<close>: the call throws a
  TypeError.\<close>

definition push_group :: "config list obj \<Rightarrow> config \<Rightarrow> exn + config list obj" where
  "push_group groups cfg =
     (let t = effective_type cfg;
          groups1 = (if obj_read groups t = Missing then obj_set groups t [] else groups)
      in case obj_read groups1 t of
           Own bucket \<Rightarrow> Inr (obj_set groups1 t (bucket @ [cfg]))
         | Inherited \<Rightarrow> Inl TypeError
         | Missing \<Rightarrow> Inl TypeError)"

text \<open>The bucket of a type in a groups object, empty when the type has none yet, and the
  groups object after a push that does not throw.\<close>

definition bucket_of :: "config list obj \<Rightarrow> string \<Rightarrow> config list" where
  "bucket_of groups t = (case obj_get groups t of None \<Rightarrow> [] | Some b \<Rightarrow> b)"

definition pushed :: "config list obj \<Rightarrow> config \<Rightarrow> config list obj" where
  "pushed groups cfg =
     obj_set groups (effective_type cfg) (bucket_of groups (effective_type cfg) @ [cfg])"

fun group_loop :: "config list obj \<Rightarrow> config list \<Rightarrow> exn + config list obj" where
  "group_loop groups [] = Inr groups"
| "group_loop groups (cfg # rest) =
     (case push_group groups cfg of
        Inl ex \<Rightarrow> Inl ex
      | Inr groups' \<Rightarrow> group_loop groups' rest)"

definition groupRepoLayers :: "config list \<Rightarrow> exn + config list obj" where
  "groupRepoLayers cfgs = group_loop [] cfgs"





section \<open>Coordinate normalisation and CSV ingestion\<close>

text \<open>
  Floating point numbers are kept abstract: a number is finite (with a value of type \<open>'n\<close>),
  \<^verbatim>\<open>NaN\<close> or an infinity; a value returned by the reprojection service may also not be a
  number at all. \<^verbatim>\<open>Number.isFinite\<close> holds of the finite numbers only.
\<close>

datatype 'n jsnum = Finite 'n | NaN | PosInf | NegInf

datatype 'n jsval = Num "'n jsnum" | NotNum

fun isFinite :: "'n jsval \<Rightarrow> bool" where
  "isFinite (Num (Finite x)) = True"
| "isFinite v = False"

text \<open>A call \<^verbatim>\<open>proj4(utm20, wgs84, [easting, northing])\<close> throws, returns something that
  cannot be destructured as an array, or returns \<^verbatim>\<open>[lon, lat]\<close>. The service itself may be
  undefined.\<close>

datatype 'n proj_result = ProjThrows | ProjNotIterable | ProjReturns "'n jsval" "'n jsval"

type_synonym 'n proj4 = "'n jsval \<Rightarrow> 'n jsval \<Rightarrow> 'n proj_result"

record 'n latlon =
  lat :: "'n jsval"
  lon :: "'n jsval"

definition try_catch :: "exn + 'a \<Rightarrow> (exn \<Rightarrow> exn + 'a) \<Rightarrow> exn + 'a" where
  "try_catch body handler = (case body of Inl e \<Rightarrow> handler e | Inr v \<Rightarrow> Inr v)"

definition utmToLatLon32620 ::
  "'n proj4 option \<Rightarrow> 'n jsval \<Rightarrow> 'n jsval \<Rightarrow> exn + 'n latlon option" where
  "utmToLatLon32620 proj easting northing =
     (case proj of
        None \<Rightarrow> Inr None
      | Some proj4 \<Rightarrow>
          try_catch
            (case proj4 easting northing of
               ProjThrows \<Rightarrow> Inl Thrown
             | ProjNotIterable \<Rightarrow> Inl TypeError
             | ProjReturns lon' lat' \<Rightarrow>
                 if \<not> isFinite lat' \<or> \<not> isFinite lon' then Inr None
                 else Inr (Some \<lparr> lat = lat', lon = lon' \<rparr>))
            (\<lambda>e. Inr None))"

text \<open>
  A CSV row is an object of string fields (PapaParse with \<^verbatim>\<open>header: true\<close>).
  \<^verbatim>\<open>parseFloat\<close> is a parameter \<open>pf\<close> on strings; a missing field parses to \<^verbatim>\<open>NaN\<close>.
  The feature of a row has the point geometry \<^verbatim>\<open>[lon, lat]\<close> and the properties
  \<^verbatim>\<open>{ ...r, __sourceFile: file.name, __assumedCRS: "EPSG:32620" }\<close>: the row's fields are
  copied in enumeration order, then the two tags are assigned. Markers, popups and the
  feature group are built by Leaflet from the same rows; \<open>featureGroup\<close> stands for that
  construction, which is taken not to throw.
\<close>

type_synonym row = "string obj"

record 'n geometry =
  gtype :: string
  coordinates :: "'n jsval list"

record 'n feature =
  ftype :: string
  geometry :: "'n geometry"
  properties :: "string obj"

record csv_file =
  fname :: string
  ftext :: string

record ('l, 'f) ingested =
  ilayer :: 'l
  ifeatures :: "'f list"

definition parseField :: "(string \<Rightarrow> 'n jsnum) \<Rightarrow> row \<Rightarrow> string \<Rightarrow> 'n jsval" where
  "parseField pf r k = (case obj_get r k of None \<Rightarrow> Num NaN | Some s \<Rightarrow> Num (pf s))"

definition row_feature :: "string \<Rightarrow> row \<Rightarrow> 'n latlon \<Rightarrow> 'n feature" where
  "row_feature name r ll =
     \<lparr> ftype = ''Feature'',
       geometry = \<lparr> gtype = ''Point'', coordinates = [lon ll, lat ll] \<rparr>,
       properties = obj_set (obj_set (for_in r) ''__sourceFile'' name)
                            ''__assumedCRS'' ''EPSG:32620'' \<rparr>"

text \<open>The loop over the rows, with the accumulators \<^verbatim>\<open>markers\<close> and \<^verbatim>\<open>features\<close>.\<close>

fun csv_rows ::
  "'n proj4 option \<Rightarrow> (string \<Rightarrow> 'n jsnum) \<Rightarrow> string \<Rightarrow> row list
    \<Rightarrow> ('n latlon \<times> row) list \<Rightarrow> 'n feature list
    \<Rightarrow> exn + (('n latlon \<times> row) list \<times> 'n feature list)" where
  "csv_rows proj pf name [] markers feats = Inr (markers, feats)"
| "csv_rows proj pf name (r # rows) markers feats =
     (let e = parseField pf r ''Easting''; n = parseField pf r ''Northing'' in
      if \<not> isFinite e \<or> \<not> isFinite n then csv_rows proj pf name rows markers feats
      else case utmToLatLon32620 proj e n of
             Inl ex \<Rightarrow> Inl ex
           | Inr None \<Rightarrow> csv_rows proj pf name rows markers feats
           | Inr (Some ll) \<Rightarrow>
               csv_rows proj pf name rows (markers @ [(ll, r)]) (feats @ [row_feature name r ll]))"

definition handleCsvUpload ::
  "(string \<Rightarrow> row list) option \<Rightarrow> 'n proj4 option \<Rightarrow> (string \<Rightarrow> 'n jsnum)
    \<Rightarrow> (('n latlon \<times> row) list \<Rightarrow> 'l) \<Rightarrow> csv_file
    \<Rightarrow> exn + ('l, 'n feature) ingested option" where
  "handleCsvUpload papa proj pf featureGroup file =
     (case papa of
        None \<Rightarrow> Inr None
      | Some parse \<Rightarrow>
          (case csv_rows proj pf (fname file) (parse (ftext file)) [] [] of
             Inl ex \<Rightarrow> Inl ex
           | Inr (markers, feats) \<Rightarrow>
               Inr (Some \<lparr> ilayer = featureGroup markers, ifeatures = feats \<rparr>)))"

section \<open>Preloading the repo layers\<close>

text \<open>
  What happens to one config inside the \<^verbatim>\<open>try\<close> block before the entry is stored:
  \<^verbatim>\<open>fetch(cfg.url)\<close> fails, \<^verbatim>\<open>resp.json()\<close> fails, \<^verbatim>\<open>createLayerFromGeoJson\<close> fails,
  or the build returns \<^verbatim>\<open>built.layer\<close> (possibly undefined), \<^verbatim>\<open>built.features\<close> and the
  document's \<^verbatim>\<open>data.features\<close> (each \<open>None\<close> when falsy). The responses of the network
  and of the style service are the parameter \<open>load\<close>.
\<close>

datatype ('l, 'f) loaded =
    FetchFails
  | ParseFails
  | BuildFails
  | Built "'l option" "'f list option" "'f list option"

record ('l, 'f) preload_env =
  load :: "config \<Rightarrow> ('l, 'f) loaded"
  guessLabelProperty :: "'f guesser option"
  hasZoomStyles :: "'l \<Rightarrow> bool"

datatype event = Fetched string | Warned string | ZoomHooked string | Dispatched string

definition repo_entry ::
  "config \<Rightarrow> 'l option \<Rightarrow> 'f list \<Rightarrow> string option \<Rightarrow> ('l, 'f) entry" where
  "repo_entry cfg lyr feats labelField =
     \<lparr> eid = cid cfg, ename = cname cfg, layer = lyr, features = Some feats,
       active = Some False,
       opacity = (if ctype cfg = Some ''roads'' then 6 / 10 else 7 / 10),
       emeta = \<lparr> mtype = ctype cfg, murl = Some (curl cfg), msource = None,
                 mfileName = None, mlabelField = labelField \<rparr> \<rparr>"

text \<open>\<^verbatim>\<open>const feats = built.features || (data.features || [])\<close>\<close>

definition built_feats :: "'f list option \<Rightarrow> 'f list option \<Rightarrow> 'f list" where
  "built_feats bf df =
     (case bf of Some fs \<Rightarrow> fs | None \<Rightarrow> (case df of Some fs \<Rightarrow> fs | None \<Rightarrow> []))"

text \<open>One iteration of \<^verbatim>\<open>for (const cfg of registry)\<close> on the repo partition and the log.
  The guard \<^verbatim>\<open>if (window.UserLayerManager.repo[cfg.id]) continue\<close> is a read: it also
  skips a config whose id names a member of \<^verbatim>\<open>Object.prototype\<close>.
  Every exception raised inside the \<^verbatim>\<open>try\<close> block ends in the \<^verbatim>\<open>catch\<close>, which warns.
  When \<^verbatim>\<open>built.layer\<close> is undefined the entry is stored first and reading
  \<^verbatim>\<open>built.layer.__ema\<close> throws afterwards.\<close>

definition preload_one ::
  "('l, 'f) preload_env \<Rightarrow> ('l, 'f) entry obj \<times> event list \<Rightarrow> config
    \<Rightarrow> ('l, 'f) entry obj \<times> event list" where
  "preload_one env st cfg =
     (let (rp, evs) = st in
      if obj_read rp (cid cfg) \<noteq> Missing then (rp, evs)
      else case load env cfg of
             FetchFails \<Rightarrow> (rp, evs @ [Fetched (curl cfg), Warned (cname cfg)])
           | ParseFails \<Rightarrow> (rp, evs @ [Fetched (curl cfg), Warned (cname cfg)])
           | BuildFails \<Rightarrow> (rp, evs @ [Fetched (curl cfg), Warned (cname cfg)])
           | Built lyr bf df \<Rightarrow>
               (let feats = built_feats bf df in
                case computeLabelField (guessLabelProperty env) cfg (Some feats) of
                  Inl ex \<Rightarrow> (rp, evs @ [Fetched (curl cfg), Warned (cname cfg)])
                | Inr labelField \<Rightarrow>
                    (let rp' = obj_set rp (cid cfg) (repo_entry cfg lyr feats labelField) in
                     case lyr of
                       None \<Rightarrow> (rp', evs @ [Fetched (curl cfg), Warned (cname cfg)])
                     | Some l \<Rightarrow>
                         if hasZoomStyles env l
                         then (rp', evs @ [Fetched (curl cfg), ZoomHooked (cid cfg)])
                         else (rp', evs @ [Fetched (curl cfg)]))))"

definition preload_loop ::
  "('l, 'f) preload_env \<Rightarrow> ('l, 'f) entry obj \<times> event list \<Rightarrow> config list
    \<Rightarrow> ('l, 'f) entry obj \<times> event list" where
  "preload_loop env st cfgs = foldl (preload_one env) st cfgs"

text \<open>\<^verbatim>\<open>if (roadsObj?.layer) { roadsObj.active = true; ... }\<close> for the entry with the id
  \<^verbatim>\<open>"major_roads"\<close>. Attaching the layer to the map and its style do not touch the registry.\<close>

definition force_roads :: "('l, 'f) entry obj \<Rightarrow> ('l, 'f) entry obj" where
  "force_roads rp =
     (case obj_get rp ''major_roads'' of
        None \<Rightarrow> rp
      | Some roadsObj \<Rightarrow>
          if layer roadsObj \<noteq> None
          then obj_set rp ''major_roads'' (roadsObj\<lparr>active := Some True\<rparr>)
          else rp)"

definition preloadRepoLayers ::
  "('l, 'f) preload_env \<Rightarrow> config list \<Rightarrow> ('l, 'f) registry
    \<Rightarrow> ('l, 'f) registry \<times> event list" where
  "preloadRepoLayers env cfgs r =
     (let (rp, evs) = preload_loop env (repo r, []) cfgs in
      (r\<lparr>repo := force_roads rp\<rparr>, evs @ [Dispatched ''layers:repoPreloaded'']))"

section \<open>The upload flow and the panel's handlers\<close>

text \<open>
  The operations of this file that write the registry. An upload commits the result of a
  format handler under the id \<^verbatim>\<open>uid("upload")\<close>, after resolving the label field with the
  config \<^verbatim>\<open>{ type: "uploaded" }\<close>; if the guess throws, nothing is stored. The toggle and
  the slider of a row read the entry of the row's id and write its \<^verbatim>\<open>active\<close> and
  \<^verbatim>\<open>opacity\<close>; \<^verbatim>\<open>onRemove\<close> reads the entry of an uploaded row and deletes the key.
  When the id is not a key but names a member of \<^verbatim>\<open>Object.prototype\<close>, the read yields
  that member, the write goes to it and \<^verbatim>\<open>delete\<close> finds no own key: the registry stays
  as it is (what the write does to the member itself is not followed). The map surface is not part of the registry; its calls in \<^verbatim>\<open>onRemove\<close> are
  taken not to throw.
\<close>

text \<open>\<^verbatim>\<open>uid(prefix)\<close>: the prefix, the hexadecimal digits of a random number and the time
  stamp, joined by underscores; the last two are parameters.\<close>

definition uid :: "string \<Rightarrow> string \<Rightarrow> string \<Rightarrow> string" where
  "uid prefix rnd stamp = prefix @ ''_'' @ rnd @ ''_'' @ stamp"

definition upload_cfg :: config where
  "upload_cfg = \<lparr> cid = [], cname = [], ctype = Some ''uploaded'', curl = [],
                   clabelField = None, cmetaUrl = None \<rparr>"

definition upload_entry ::
  "string \<Rightarrow> string \<Rightarrow> 'l option \<Rightarrow> 'f list option \<Rightarrow> string option \<Rightarrow> ('l, 'f) entry" where
  "upload_entry i name lyr feats labelField =
     \<lparr> eid = i, ename = name, layer = lyr, features = feats, active = Some False,
       opacity = 7 / 10,
       emeta = \<lparr> mtype = None, murl = None, msource = Some ''upload'',
                 mfileName = Some name, mlabelField = labelField \<rparr> \<rparr>"

definition commit_upload ::
  "'f guesser option \<Rightarrow> string \<Rightarrow> string \<Rightarrow> 'l option \<Rightarrow> 'f list option
    \<Rightarrow> ('l, 'f) registry \<Rightarrow> exn + ('l, 'f) registry" where
  "commit_upload guess i name lyr feats r =
     (case computeLabelField guess upload_cfg feats of
        Inl ex \<Rightarrow> Inl ex
      | Inr labelField \<Rightarrow>
          Inr (r\<lparr>uploaded := obj_set (uploaded r) i (upload_entry i name lyr feats labelField)\<rparr>))"

definition set_active :: "('l, 'f) entry obj \<Rightarrow> string \<Rightarrow> bool \<Rightarrow> ('l, 'f) entry obj" where
  "set_active part i isOn =
     (case obj_read part i of
        Missing \<Rightarrow> part
      | Inherited \<Rightarrow> part
      | Own d \<Rightarrow> obj_set part i (d\<lparr>active := Some isOn\<rparr>))"

definition set_opacity :: "('l, 'f) entry obj \<Rightarrow> string \<Rightarrow> rat \<Rightarrow> ('l, 'f) entry obj" where
  "set_opacity part i val =
     (case obj_read part i of
        Missing \<Rightarrow> part
      | Inherited \<Rightarrow> part
      | Own d \<Rightarrow> obj_set part i (d\<lparr>opacity := val\<rparr>))"

definition onRemove :: "string \<Rightarrow> ('l, 'f) registry \<Rightarrow> ('l, 'f) registry" where
  "onRemove i r =
     (case obj_read (uploaded r) i of
        Missing \<Rightarrow> r
      | Inherited \<Rightarrow> r\<lparr>uploaded := obj_delete (uploaded r) i\<rparr>
      | Own d \<Rightarrow> r\<lparr>uploaded := obj_delete (uploaded r) i\<rparr>)"

datatype ('l, 'f) op =
    Upload "'f guesser option" string string string "'l option" "'f list option"
  | ToggleUploaded string bool
  | SlideUploaded string rat
  | RemoveUploaded string
  | ToggleRepo string bool
  | SlideRepo string rat
  | Preload "('l, 'f) preload_env" "config list"

fun apply_op :: "('l, 'f) registry \<Rightarrow> ('l, 'f) op \<Rightarrow> ('l, 'f) registry" where
  "apply_op r (Upload guess rnd stamp name lyr feats) =
     (case commit_upload guess (uid ''upload'' rnd stamp) name lyr feats r of
        Inl ex \<Rightarrow> r
      | Inr r' \<Rightarrow> r')"
| "apply_op r (ToggleUploaded i isOn) = r\<lparr>uploaded := set_active (uploaded r) i isOn\<rparr>"
| "apply_op r (SlideUploaded i val) = r\<lparr>uploaded := set_opacity (uploaded r) i val\<rparr>"
| "apply_op r (RemoveUploaded i) = onRemove i r"
| "apply_op r (ToggleRepo i isOn) = r\<lparr>repo := set_active (repo r) i isOn\<rparr>"
| "apply_op r (SlideRepo i val) = r\<lparr>repo := set_opacity (repo r) i val\<rparr>"
| "apply_op r (Preload env cfgs) = fst (preloadRepoLayers env cfgs r)"

definition run_ops :: "('l, 'f) registry \<Rightarrow> ('l, 'f) op list \<Rightarrow> ('l, 'f) registry" where
  "run_ops r ops = foldl apply_op r ops"

text \<open>The features an operation can bring into the registry: those of an upload's result,
  and those of the documents a preload is answered with.\<close>

definition loaded_features :: "('l, 'f) loaded \<Rightarrow> 'f set" where
  "loaded_features x =
     (case x of Built lyr bf df \<Rightarrow> set (built_feats bf df) | _ \<Rightarrow> {})"

fun op_features :: "('l, 'f) op \<Rightarrow> 'f set" where
  "op_features (Upload guess rnd stamp name lyr feats) =
     (case feats of Some fs \<Rightarrow> set fs | None \<Rightarrow> {})"
| "op_features (Preload env cfgs) = (\<Union>cfg \<in> set cfgs. loaded_features (load env cfg))"
| "op_features other = {}"

definition part_features :: "('l, 'f) entry obj \<Rightarrow> 'f set" where
  "part_features part = (\<Union>p \<in> set part. set (feature_list (snd p)))"

definition stored_features :: "('l, 'f) registry \<Rightarrow> 'f set" where
  "stored_features r = part_features (uploaded r) \<union> part_features (repo r)"

text \<open>The features held by the entries of a registry other than the uploaded entry of an
  id.\<close>

definition other_features :: "('l, 'f) registry \<Rightarrow> string \<Rightarrow> 'f set" where
  "other_features r i =
     part_features (filter (\<lambda>p. fst p \<noteq> i) (uploaded r)) \<union> part_features (repo r)"

section \<open>Accepted rows\<close>

text \<open>
  The specification's reading of the loop: a row is accepted when both fields parse to
  finite numbers and the normaliser answers with coordinates; the feature emitted for an
  accepted row is built from those coordinates.
\<close>

definition normalised :: "'n proj4 option \<Rightarrow> (string \<Rightarrow> 'n jsnum) \<Rightarrow> row \<Rightarrow> 'n latlon option" where
  "normalised proj pf r =
     (case utmToLatLon32620 proj (parseField pf r ''Easting'') (parseField pf r ''Northing'') of
        Inr (Some ll) \<Rightarrow> Some ll
      | _ \<Rightarrow> None)"

definition row_accepted :: "'n proj4 option \<Rightarrow> (string \<Rightarrow> 'n jsnum) \<Rightarrow> row \<Rightarrow> bool" where
  "row_accepted proj pf r =
     (isFinite (parseField pf r ''Easting'') \<and> isFinite (parseField pf r ''Northing'')
      \<and> normalised proj pf r \<noteq> None)"

definition emitted :: "'n proj4 option \<Rightarrow> (string \<Rightarrow> 'n jsnum) \<Rightarrow> string \<Rightarrow> row \<Rightarrow> 'n feature" where
  "emitted proj pf name r = row_feature name r (the (normalised proj pf r))"

section \<open>The preloader's effect on the repo partition\<close>

text \<open>
  The entry an attempt of a config stores, if any: none when the fetch, the parse or the
  build fails or the label guess throws. (When the build returns no layer handle the entry
  is stored, and the exception comes afterwards.) \<open>step_repo\<close> is the effect of one loop
  iteration on the repo partition alone, and \<open>first_stored\<close> the entry that the first
  successful attempt among the configs of an id stores.
\<close>

definition stored_entry :: "('l, 'f) preload_env \<Rightarrow> config \<Rightarrow> ('l, 'f) entry option" where
  "stored_entry env cfg =
     (case load env cfg of
        Built lyr bf df \<Rightarrow>
          (case computeLabelField (guessLabelProperty env) cfg (Some (built_feats bf df)) of
             Inl ex \<Rightarrow> None
           | Inr labelField \<Rightarrow> Some (repo_entry cfg lyr (built_feats bf df) labelField))
      | _ \<Rightarrow> None)"

definition step_repo ::
  "('l, 'f) preload_env \<Rightarrow> ('l, 'f) entry obj \<Rightarrow> config \<Rightarrow> ('l, 'f) entry obj" where
  "step_repo env rp cfg =
     (if obj_read rp (cid cfg) \<noteq> Missing then rp
      else case stored_entry env cfg of None \<Rightarrow> rp | Some d \<Rightarrow> obj_set rp (cid cfg) d)"

fun first_stored :: "('l, 'f) preload_env \<Rightarrow> string \<Rightarrow> config list \<Rightarrow> ('l, 'f) entry option" where
  "first_stored env i [] = None"
| "first_stored env i (c # cs) =
     (if cid c = i
      then (case stored_entry env c of Some d \<Rightarrow> Some d | None \<Rightarrow> first_stored env i cs)
      else first_stored env i cs)"


section \<open>Concrete registries, configs and files\<close>

definition mk_entry :: "string \<Rightarrow> bool \<Rightarrow> 'f list \<Rightarrow> (unit, 'f) entry" where
  "mk_entry i a fs = \<lparr> eid = i, ename = i, layer = Some (), features = Some fs,
     active = Some a, opacity = 7 / 10,
     emeta = \<lparr> mtype = None, murl = None, msource = None, mfileName = None, mlabelField = None \<rparr> \<rparr>"

definition reg_numeric_ids :: "(unit, nat) registry" where
  "reg_numeric_ids = \<lparr> uploaded = [],
     repo = obj_set (obj_set [] ''2'' (mk_entry ''2'' True [10])) ''1'' (mk_entry ''1'' True [20]) \<rparr>"

definition reg_named_ids :: "(unit, nat) registry" where
  "reg_named_ids = \<lparr> uploaded = [(''upload_a'', mk_entry ''upload_a'' True [1, 2]), (''upload_b'', mk_entry ''upload_b'' False [3])],
     repo = [(''zones'', mk_entry ''zones'' True [4]), (''major_roads'', mk_entry ''major_roads'' True [5])] \<rparr>"

definition cfg_plain :: config where
  "cfg_plain = \<lparr> cid = ''parks'', cname = ''Parks'', ctype = Some ''other'',
     curl = ''data/parks.geojson'', clabelField = None, cmetaUrl = None \<rparr>"

definition cfg_explicit :: config where
  "cfg_explicit = cfg_plain\<lparr> ctype := Some ''municipality'', clabelField := Some ''PARISH'' \<rparr>"

definition cfg_municipality :: config where
  "cfg_municipality = cfg_plain\<lparr> ctype := Some ''municipality'' \<rparr>"

definition cfg_zone :: config where
  "cfg_zone = cfg_plain\<lparr> ctype := Some ''zone'' \<rparr>"

definition guess_name :: "nat guesser" where
  "guess_name fs = Inr (Some ''name'')"

definition proj_ok :: "int proj4" where
  "proj_ok e n = ProjReturns (Num (Finite (-61))) (Num (Finite 10))"

definition proj_throws :: "int proj4" where
  "proj_throws e n = ProjThrows"

definition proj_nan :: "int proj4" where
  "proj_nan e n = ProjReturns (Num NaN) (Num (Finite 10))"

definition cfg_untyped :: config where
  "cfg_untyped = cfg_plain\<lparr> cid := ''misc'', ctype := None \<rparr>"

definition cfg_blank :: config where
  "cfg_blank = cfg_plain\<lparr> cid := ''blank'', ctype := Some [] \<rparr>"

definition pf_digits :: "string \<Rightarrow> int jsnum" where
  "pf_digits s = (if s \<noteq> [] \<and> list_all is_digit s then Finite (int (str_nat s)) else NaN)"

definition row_good :: row where
  "row_good = [(''Easting'', ''52''), (''Northing'', ''11''), (''Site'', ''A1'')]"

definition row_bad :: row where
  "row_bad = [(''Easting'', ''n/a''), (''Northing'', ''11''), (''Site'', ''B2'')]"

definition row_tagged :: row where
  "row_tagged = [(''Easting'', ''52''), (''Northing'', ''11''), (''__sourceFile'', ''legacy.csv'')]"

definition csv_sites :: csv_file where
  "csv_sites = \<lparr> fname = ''sites.csv'', ftext = ''Easting,Northing,Site'' \<rparr>"

definition papa_sites :: "string \<Rightarrow> row list" where
  "papa_sites text = [row_good, row_bad]"

definition papa_tagged :: "string \<Rightarrow> row list" where
  "papa_tagged text = [row_tagged]"

definition marker_count :: "(int latlon \<times> row) list \<Rightarrow> nat" where
  "marker_count markers = length markers"




definition env_mixed :: "(unit, nat) preload_env" where
  "env_mixed = \<lparr> load = (\<lambda>cfg. if cid cfg = ''zones'' then FetchFails
                                  else Built (Some ()) None (Some [7, 8])),
                  guessLabelProperty = Some guess_name,
                  hasZoomStyles = (\<lambda>l. True) \<rparr>"

definition reg_empty :: "(unit, nat) registry" where
  "reg_empty = \<lparr> uploaded = [], repo = [] \<rparr>"



definition ops_after_removal :: "(unit, nat) op list" where
  "ops_after_removal =
     [ToggleUploaded ''upload_a'' True,
      Upload None ''c0ffee'' ''1700000000000'' ''c.csv'' (Some ()) (Some [9]),
      ToggleUploaded ''upload_c0ffee_1700000000000'' True,
      Preload env_mixed [cfg_plain],
      ToggleRepo ''parks'' True]"

definition cfg_constructor :: config where
  "cfg_constructor = cfg_plain\<lparr> cid := ''ctor'', ctype := Some ''constructor'' \<rparr>"

definition env_layerless :: "(unit, nat) preload_env" where
  "env_layerless = \<lparr> load = (\<lambda>cfg. Built None None (Some [7, 8])),
                      guessLabelProperty = None, hasZoomStyles = (\<lambda>l. False) \<rparr>"

section \<open>Facts about objects\<close>

lemma obj_get_set: "obj_get (obj_set ob k v) k' = (if k' = k then Some v else obj_get ob k')"
  by (induction ob) (auto simp: obj_get_def)

lemma keys_obj_set:
  "map fst (obj_set ob k v) = (if obj_get ob k = None then map fst ob @ [k] else map fst ob)"
  by (induction ob) (auto simp: obj_get_def)

lemma obj_get_empty: "obj_get [] k = None"
  by (simp add: obj_get_def)

lemma obj_get_None_iff: "obj_get ob k = None \<longleftrightarrow> k \<notin> fst ` set ob"
  by (simp add: obj_get_def map_of_eq_None_iff)

lemma key_set_obj_set: "fst ` set (obj_set ob k v) = insert k (fst ` set ob)"
proof -
  have "set (map fst (obj_set ob k v)) = insert k (set (map fst ob))"
    by (auto simp: keys_obj_set obj_get_None_iff)
  then show ?thesis by simp
qed


lemma for_in_plain: "\<forall>p\<in>set ob. \<not> is_array_index (fst p) \<Longrightarrow> for_in ob = ob"
  by (simp add: for_in_def filter_empty_conv[THEN iffD2])

lemma not_array_index_letter: "\<not> is_digit c \<Longrightarrow> \<not> is_array_index (c # s)"
  by (simp add: is_array_index_def)

lemma set_for_in: "set (for_in ob) = set ob"
  by (auto simp: for_in_def)

lemma set_obj_set_other: "k' \<noteq> k \<Longrightarrow> (k', v') \<in> set (obj_set ob k v) \<longleftrightarrow> (k', v') \<in> set ob"
  by (induction ob) (auto split: if_splits)

lemma obj_read_Missing: "obj_read ob k = Missing \<longleftrightarrow> obj_get ob k = None \<and> \<not> inherited k"
  by (simp add: obj_read_def split: option.splits)

lemma obj_read_Own: "obj_read ob k = Own v \<longleftrightarrow> obj_get ob k = Some v"
  by (simp add: obj_read_def split: option.splits)

lemma obj_read_Inherited: "obj_read ob k = Inherited \<longleftrightarrow> obj_get ob k = None \<and> inherited k"
  by (simp add: obj_read_def split: option.splits)

lemma obj_set_twice: "obj_set (obj_set ob k v) k w = obj_set ob k w"
  by (induction ob) auto

section \<open>The aggregate query\<close>

lemma push_active_concat: "push_active out xs = out @ concat (map (\<lambda>p. contribution (snd p)) xs)"
  by (induction xs arbitrary: out) auto

lemma contribution_active_entries:
  "concat (map (\<lambda>p. contribution (snd p)) xs) = concat (map feature_list (active_entries xs))"
  by (induction xs) (auto simp: contribution_def feature_list_def active_entries_def split: option.splits)

lemma getAllActiveFeatures_concat:
  "getAllActiveFeatures r =
     concat (map feature_list (active_entries (for_in (uploaded r)) @ active_entries (for_in (repo r))))"
  by (simp add: getAllActiveFeatures_def push_active_concat contribution_active_entries)

lemma digit_val_simps: "digit_val CHR ''1'' = 1" "digit_val CHR ''2'' = 2"
  by (simp_all add: digit_val_def)

lemma str_nat_simps: "str_nat ''1'' = 1" "str_nat ''2'' = 2"
  by (simp_all add: str_nat_def digit_val_simps)

lemma is_array_index_simps: "is_array_index ''1''" "is_array_index ''2''"
  by (simp_all add: is_array_index_def is_digit_def str_nat_simps)

lemma not_array_index_names:
  "\<not> is_array_index ''upload_a''" "\<not> is_array_index ''upload_b''"
  "\<not> is_array_index ''zones''" "\<not> is_array_index ''major_roads''"
  by (simp_all add: not_array_index_letter is_digit_def)

text \<open>
  Claim C1, as the code has it. \<^verbatim>\<open>getAllActiveFeatures()\<close> returns the concatenation of
  the feature lists of the entries whose \<^verbatim>\<open>active\<close> flag is true and whose \<^verbatim>\<open>features\<close>
  is a list, the uploaded partition first and then the repo partition, each partition in
  the enumeration order of its keys: array-index ids first in ascending numeric order,
  then the other ids in insertion order. When no id is an array index this is insertion
  order, the result the specification states. An entry whose flag is not true or whose
  \<^verbatim>\<open>features\<close> is not a list contributes nothing.
\<close>

theorem getAllActiveFeatures_enumeration:
  fixes r :: "('l, 'f) registry"
  shows "getAllActiveFeatures r =
     concat (map feature_list
       (active_entries (for_in (uploaded r)) @ active_entries (for_in (repo r))))
   \<and> ((\<forall>p \<in> set (uploaded r @ repo r). \<not> is_array_index (fst p)) \<longrightarrow>
        getAllActiveFeatures r = spec_getAllActiveFeatures r)
   \<and> (\<forall>d :: ('l, 'f) entry. active d \<noteq> Some True \<or> features d = None \<longrightarrow> contribution d = [])"
proof -
  have enum: "getAllActiveFeatures r =
     concat (map feature_list
       (active_entries (for_in (uploaded r)) @ active_entries (for_in (repo r))))"
    by (rule getAllActiveFeatures_concat)
  have plain: "getAllActiveFeatures r = spec_getAllActiveFeatures r"
    if "\<forall>p \<in> set (uploaded r @ repo r). \<not> is_array_index (fst p)"
  proof -
    from that have "for_in (uploaded r) = uploaded r" and "for_in (repo r) = repo r"
      by (simp_all add: for_in_plain)
    then show ?thesis
      by (simp add: getAllActiveFeatures_concat spec_getAllActiveFeatures_def)
  qed
  have silent: "\<forall>d :: ('l, 'f) entry.
      active d \<noteq> Some True \<or> features d = None \<longrightarrow> contribution d = []"
    by (auto simp: contribution_def)
  show ?thesis
    using enum plain silent by blast
qed

text \<open>The theorem at a registry with two uploads and two repo layers.\<close>

theorem getAllActiveFeatures_enumeration_witness:
  "list_all (\<lambda>p. \<not> is_array_index (fst p)) (uploaded reg_named_ids @ repo reg_named_ids)
   \<and> getAllActiveFeatures reg_named_ids = [1, 2, 4, 5]
   \<and> spec_getAllActiveFeatures reg_named_ids = [1, 2, 4, 5]
   \<and> contribution (mk_entry ''upload_b'' False [3::nat]) = []"
proof -
  note enum = getAllActiveFeatures_enumeration [of reg_named_ids]
  have plain: "\<forall>p \<in> set (uploaded reg_named_ids @ repo reg_named_ids). \<not> is_array_index (fst p)"
    by (simp add: reg_named_ids_def not_array_index_names)
  have spec: "spec_getAllActiveFeatures reg_named_ids = [1, 2, 4, 5]"
    by (simp add: spec_getAllActiveFeatures_def reg_named_ids_def active_entries_def
        feature_list_def mk_entry_def)
  have off: "active (mk_entry ''upload_b'' False [3::nat]) \<noteq> Some True"
    by (simp add: mk_entry_def)
  from enum plain have "getAllActiveFeatures reg_named_ids = spec_getAllActiveFeatures reg_named_ids"
    by blast
  moreover from enum off have "contribution (mk_entry ''upload_b'' False [3::nat]) = []"
    by blast
  ultimately show ?thesis using plain spec by (simp add: list_all_iff)
qed

text \<open>Insertion order fails for numeric ids: the repo entry \<^verbatim>\<open>"2"\<close> is stored before the
  entry \<^verbatim>\<open>"1"\<close>, and the features of \<^verbatim>\<open>"1"\<close> come first.\<close>

theorem getAllActiveFeatures_insertion_order_counterexample:
  "getAllActiveFeatures reg_numeric_ids = [20, 10]
   \<and> spec_getAllActiveFeatures reg_numeric_ids = [10, 20]"
proof
  have "for_in (repo reg_numeric_ids) = [(''1'', mk_entry ''1'' True [20]), (''2'', mk_entry ''2'' True [10])]"
    by (simp add: for_in_def reg_numeric_ids_def is_array_index_simps str_nat_simps)
  moreover have "for_in (uploaded reg_numeric_ids) = []"
    by (simp add: for_in_def reg_numeric_ids_def)
  ultimately show "getAllActiveFeatures reg_numeric_ids = [20, 10]"
    by (simp add: getAllActiveFeatures_def contribution_def mk_entry_def)
  show "spec_getAllActiveFeatures reg_numeric_ids = [10, 20]"
    by (simp add: spec_getAllActiveFeatures_def reg_numeric_ids_def active_entries_def
        feature_list_def mk_entry_def)
qed

section \<open>Label field resolution\<close>

text \<open>
  Claim C2, as the code has it. \<^verbatim>\<open>computeLabelField\<close> first returns null when the
  feature list is absent or empty, whatever the config says. For a non-empty feature list
  the first match wins: a non-empty explicit \<^verbatim>\<open>labelField\<close> of the config; then the type
  default (\<^verbatim>\<open>"NAME_1"\<close> for municipality, \<^verbatim>\<open>"zone"\<close> for zone); then the answer of the
  guess service on the features, when the service exists; then null.
\<close>

theorem computeLabelField_precedence:
  "(feats = None \<or> feats = Some [] \<longrightarrow> computeLabelField guess cfg feats = Inr None)
   \<and> (feats = Some (f # fs) \<longrightarrow>
        (truthy (clabelField cfg) \<longrightarrow>
           computeLabelField guess cfg feats = Inr (clabelField cfg))
      \<and> (\<not> truthy (clabelField cfg) \<longrightarrow>
           (ctype cfg = Some ''municipality'' \<longrightarrow>
              computeLabelField guess cfg feats = Inr (Some ''NAME_1''))
         \<and> (ctype cfg = Some ''zone'' \<longrightarrow>
              computeLabelField guess cfg feats = Inr (Some ''zone''))
         \<and> (ctype cfg \<noteq> Some ''municipality'' \<and> ctype cfg \<noteq> Some ''zone'' \<longrightarrow>
              (\<forall>g. guess = Some g \<longrightarrow> computeLabelField guess cfg feats = g (f # fs))
            \<and> (guess = None \<longrightarrow> computeLabelField guess cfg feats = Inr None))))"
  by (auto simp: computeLabelField_def)

text \<open>Each tier at a concrete config, with a guess service that answers \<^verbatim>\<open>"name"\<close>.\<close>

theorem computeLabelField_precedence_witness:
  "computeLabelField (Some guess_name) cfg_explicit None = Inr None
   \<and> computeLabelField (Some guess_name) cfg_explicit (Some [1, 2]) = Inr (Some ''PARISH'')
   \<and> computeLabelField (Some guess_name) cfg_municipality (Some [1, 2]) = Inr (Some ''NAME_1'')
   \<and> computeLabelField (Some guess_name) cfg_zone (Some [1, 2]) = Inr (Some ''zone'')
   \<and> computeLabelField (Some guess_name) cfg_plain (Some [1, 2]) = Inr (Some ''name'')
   \<and> computeLabelField None cfg_plain (Some [1, 2 :: nat]) = Inr None"
proof -
  have e: "truthy (clabelField cfg_explicit)" "clabelField cfg_explicit = Some ''PARISH''"
    by (simp_all add: cfg_explicit_def cfg_plain_def truthy_def)
  have m: "\<not> truthy (clabelField cfg_municipality)" "ctype cfg_municipality = Some ''municipality''"
    by (simp_all add: cfg_municipality_def cfg_plain_def truthy_def)
  have z: "\<not> truthy (clabelField cfg_zone)" "ctype cfg_zone = Some ''zone''"
    by (simp_all add: cfg_zone_def cfg_plain_def truthy_def)
  have p: "\<not> truthy (clabelField cfg_plain)" "ctype cfg_plain \<noteq> Some ''municipality''"
    "ctype cfg_plain \<noteq> Some ''zone''"
    by (simp_all add: cfg_plain_def truthy_def)
  have "computeLabelField (Some guess_name) cfg_explicit None = Inr None"
    using computeLabelField_precedence [of None "Some guess_name" cfg_explicit] by simp
  moreover have "computeLabelField (Some guess_name) cfg_explicit (Some [1, 2]) = Inr (Some ''PARISH'')"
    using computeLabelField_precedence [of "Some [1, 2]" "Some guess_name" cfg_explicit 1 "[2]"] e
    by simp
  moreover have "computeLabelField (Some guess_name) cfg_municipality (Some [1, 2]) = Inr (Some ''NAME_1'')"
    using computeLabelField_precedence [of "Some [1, 2]" "Some guess_name" cfg_municipality 1 "[2]"] m
    by simp
  moreover have "computeLabelField (Some guess_name) cfg_zone (Some [1, 2]) = Inr (Some ''zone'')"
    using computeLabelField_precedence [of "Some [1, 2]" "Some guess_name" cfg_zone 1 "[2]"] z
    by simp
  moreover have "computeLabelField (Some guess_name) cfg_plain (Some [1, 2]) = Inr (Some ''name'')"
    using computeLabelField_precedence [of "Some [1, 2]" "Some guess_name" cfg_plain 1 "[2]"] p
    by (simp add: guess_name_def)
  moreover have "computeLabelField None cfg_plain (Some [1, 2 :: nat]) = Inr None"
    using computeLabelField_precedence [of "Some [1, 2 :: nat]" None cfg_plain 1 "[2]"] p
    by simp
  ultimately show ?thesis by simp
qed

text \<open>An explicit \<^verbatim>\<open>labelField\<close> does not win over an empty feature list: the code
  returns null where the stated precedence returns the field.\<close>

theorem computeLabelField_explicit_counterexample:
  "computeLabelField (Some guess_name) cfg_explicit (Some []) = Inr None
   \<and> spec_resolveLabelField (Some guess_name) cfg_explicit (Some []) = Inr (Some ''PARISH'')"
  by (simp add: computeLabelField_def spec_resolveLabelField_def cfg_explicit_def cfg_plain_def)

section \<open>The coordinate normaliser\<close>

text \<open>
  Claim C7. \<^verbatim>\<open>utmToLatLon32620\<close> never throws, for any two arguments: it returns
  null when the reprojection service is undefined, when the service throws (or returns
  something that cannot be destructured), and when the latitude or the longitude it
  produced is not a finite number; otherwise it returns the pair \<^verbatim>\<open>{ lat, lon }\<close> of the
  service's answer.
\<close>

theorem utmToLatLon32620_never_throws:
  "(\<exists>res. utmToLatLon32620 proj e n = Inr res)
   \<and> (proj = None \<longrightarrow> utmToLatLon32620 proj e n = Inr None)
   \<and> (\<forall>p. proj = Some p \<longrightarrow>
         (p e n = ProjThrows \<or> p e n = ProjNotIterable \<longrightarrow>
            utmToLatLon32620 proj e n = Inr None)
       \<and> (\<forall>lo la. p e n = ProjReturns lo la \<longrightarrow>
            (\<not> isFinite la \<or> \<not> isFinite lo \<longrightarrow> utmToLatLon32620 proj e n = Inr None)
          \<and> (isFinite la \<and> isFinite lo \<longrightarrow>
               utmToLatLon32620 proj e n = Inr (Some \<lparr> lat = la, lon = lo \<rparr>))))"
proof (cases proj)
  case None
  then show ?thesis by (simp add: utmToLatLon32620_def)
next
  case (Some p)
  then show ?thesis
    by (cases "p e n") (auto simp: utmToLatLon32620_def try_catch_def)
qed

text \<open>
  The four cases at concrete services: none, one that throws, one that answers
  \<^verbatim>\<open>NaN\<close>, one that answers finite coordinates.
\<close>

theorem utmToLatLon32620_never_throws_witness:
  "utmToLatLon32620 None (Num (Finite 500000)) (Num (Finite (1100000::int))) = Inr None
   \<and> utmToLatLon32620 (Some proj_throws) (Num (Finite 500000)) (Num (Finite 1100000)) = Inr None
   \<and> utmToLatLon32620 (Some proj_nan) (Num (Finite 500000)) (Num (Finite 1100000)) = Inr None
   \<and> utmToLatLon32620 (Some proj_ok) (Num (Finite 500000)) (Num (Finite 1100000))
       = Inr (Some \<lparr> lat = Num (Finite 10), lon = Num (Finite (-61)) \<rparr>)"
proof -
  let ?e = "Num (Finite 500000) :: int jsval" and ?n = "Num (Finite 1100000) :: int jsval"
  have "utmToLatLon32620 None ?e ?n = Inr None"
    using utmToLatLon32620_never_throws [of None ?e ?n] by simp
  moreover have "utmToLatLon32620 (Some proj_throws) ?e ?n = Inr None"
    using utmToLatLon32620_never_throws [of "Some proj_throws" ?e ?n]
    by (simp add: proj_throws_def)
  moreover have "utmToLatLon32620 (Some proj_nan) ?e ?n = Inr None"
    using utmToLatLon32620_never_throws [of "Some proj_nan" ?e ?n]
    by (simp add: proj_nan_def)
  moreover have "utmToLatLon32620 (Some proj_ok) ?e ?n
       = Inr (Some \<lparr> lat = Num (Finite 10), lon = Num (Finite (-61)) \<rparr>)"
    using utmToLatLon32620_never_throws [of "Some proj_ok" ?e ?n]
    by (simp add: proj_ok_def)
  ultimately show ?thesis by simp
qed

section \<open>Grouping by type\<close>

lemma effective_type_nonempty: "effective_type cfg \<noteq> []"
  by (simp add: effective_type_def split: option.splits)

lemma effective_type_falsy: "\<not> truthy (ctype cfg) \<Longrightarrow> effective_type cfg = ''other''"
  by (simp add: effective_type_def truthy_def split: option.splits)

lemma push_group_Inr:
  "\<not> inherited (effective_type cfg) \<Longrightarrow> push_group groups cfg = Inr (pushed groups cfg)"
  by (cases "obj_get groups (effective_type cfg)")
     (simp_all add: push_group_def pushed_def Let_def obj_read_def obj_get_set obj_set_twice
       bucket_of_def)


lemma obj_get_pushed:
  "obj_get (pushed groups cfg) t =
     (if t = effective_type cfg then Some (bucket_of groups t @ [cfg]) else obj_get groups t)"
  by (simp add: pushed_def obj_get_set)

lemma keys_pushed:
  "fst ` set (pushed groups cfg) = insert (effective_type cfg) (fst ` set groups)"
  by (simp add: pushed_def key_set_obj_set)


lemma obj_get_foldl_pushed:
  "obj_get (foldl pushed groups cfgs) t =
     (if filter (\<lambda>c. effective_type c = t) cfgs = [] then obj_get groups t
      else Some (bucket_of groups t @ filter (\<lambda>c. effective_type c = t) cfgs))"
proof (induction cfgs arbitrary: groups)
  case Nil
  then show ?case by simp
next
  case (Cons c cfgs)
  show ?case
    by (simp add: Cons.IH obj_get_pushed bucket_of_def)
qed

lemma keys_foldl_pushed:
  "fst ` set (foldl pushed groups cfgs) = fst ` set groups \<union> effective_type ` set cfgs"
  by (induction cfgs arbitrary: groups) (simp_all add: keys_pushed)


lemma mset_obj_set_extend:
  "obj_get ob t = Some b \<Longrightarrow>
     mset (concat (map snd (obj_set ob t (b @ [c])))) = add_mset c (mset (concat (map snd ob)))"
  by (induction ob) (auto simp: obj_get_def)

lemma mset_obj_set_new:
  "obj_get ob t = None \<Longrightarrow>
     mset (concat (map snd (obj_set ob t v))) = mset v + mset (concat (map snd ob))"
  by (induction ob) (auto simp: obj_get_def)

lemma mset_pushed:
  "mset (concat (map snd (pushed groups cfg))) = add_mset cfg (mset (concat (map snd groups)))"
  by (cases "obj_get groups (effective_type cfg)")
     (simp_all add: pushed_def bucket_of_def mset_obj_set_extend mset_obj_set_new)

lemma mset_foldl_pushed:
  "mset (concat (map snd (foldl pushed groups cfgs))) = mset (concat (map snd groups)) + mset cfgs"
  by (induction cfgs arbitrary: groups) (auto simp: mset_pushed)

lemma group_loop_Inr:
  "\<forall>c \<in> set cfgs. \<not> inherited (effective_type c) \<Longrightarrow>
     group_loop groups cfgs = Inr (foldl pushed groups cfgs)"
  by (induction cfgs arbitrary: groups) (simp_all add: push_group_Inr)



lemma groupRepoLayers_Inr:
  "\<forall>c \<in> set cfgs. \<not> inherited (effective_type c) \<Longrightarrow>
     groupRepoLayers cfgs = Inr (foldl pushed [] cfgs)"
  by (simp add: groupRepoLayers_def group_loop_Inr)

lemma effective_type_examples:
  "effective_type cfg_untyped = ''other''" "effective_type cfg_blank = ''other''"
  "effective_type cfg_plain = ''other''" "effective_type cfg_zone = ''zone''"
  "effective_type cfg_constructor = ''constructor''"
  by (simp_all add: effective_type_def cfg_untyped_def cfg_blank_def cfg_plain_def cfg_zone_def
      cfg_constructor_def)

lemma inherited_examples:
  "\<not> inherited ''other''" "\<not> inherited ''zone''" "\<not> inherited ''roads''"
  "inherited ''constructor''"
  by (simp_all add: inherited_def object_prototype_def)


text \<open>
  Claim C10, as the code has it. For every list of configs none of whose types is the
  name of a member of \<^verbatim>\<open>Object.prototype\<close>: a config whose \<^verbatim>\<open>type\<close> is absent or falsy is
  in the bucket \<^verbatim>\<open>"other"\<close>; every key of the returned object is a non-empty string; every
  config is in the bucket of its type, and the buckets together hold exactly the configs of
  the input, each as often as it occurs there.
\<close>

theorem groupRepoLayers_other_bucket:
  "(\<forall>c \<in> set cfgs. \<not> inherited (effective_type c)) \<longrightarrow>
     (\<exists>groups. groupRepoLayers cfgs = Inr groups
        \<and> (\<forall>cfg \<in> set cfgs. \<not> truthy (ctype cfg) \<longrightarrow>
              (\<exists>b. obj_get groups ''other'' = Some b \<and> cfg \<in> set b))
        \<and> (\<forall>p \<in> set groups. fst p \<noteq> [])
        \<and> (\<forall>cfg \<in> set cfgs.
              \<exists>b. obj_get groups (effective_type cfg) = Some b \<and> cfg \<in> set b)
        \<and> mset (concat (map snd groups)) = mset cfgs)"
proof
  assume "\<forall>c \<in> set cfgs. \<not> inherited (effective_type c)"
  then have ret: "groupRepoLayers cfgs = Inr (foldl pushed [] cfgs)"
    by (rule groupRepoLayers_Inr)
  let ?g = "foldl pushed [] cfgs"
  have own: "\<exists>b. obj_get ?g (effective_type cfg) = Some b \<and> cfg \<in> set b"
    if "cfg \<in> set cfgs" for cfg
  proof -
    from that have mem: "cfg \<in> set (filter (\<lambda>c. effective_type c = effective_type cfg) cfgs)"
      by simp
    then have "filter (\<lambda>c. effective_type c = effective_type cfg) cfgs \<noteq> []"
      by (metis empty_iff empty_set)
    with mem show ?thesis
      by (simp add: obj_get_foldl_pushed bucket_of_def obj_get_empty)
  qed
  have other: "\<exists>b. obj_get ?g ''other'' = Some b \<and> cfg \<in> set b"
    if "cfg \<in> set cfgs" "\<not> truthy (ctype cfg)" for cfg
    using own [OF that(1)] that(2) by (simp add: effective_type_falsy)
  have keys: "fst p \<noteq> []" if "p \<in> set ?g" for p
  proof -
    from that have "fst p \<in> fst ` set ?g" by simp
    then have "fst p \<in> effective_type ` set cfgs"
      by (simp add: keys_foldl_pushed)
    then obtain c where "fst p = effective_type c" by blast
    then show ?thesis by (simp add: effective_type_nonempty)
  qed
  have all: "mset (concat (map snd ?g)) = mset cfgs"
    by (simp add: mset_foldl_pushed)
  from ret own other keys all
  show "\<exists>groups. groupRepoLayers cfgs = Inr groups
        \<and> (\<forall>cfg \<in> set cfgs. \<not> truthy (ctype cfg) \<longrightarrow>
              (\<exists>b. obj_get groups ''other'' = Some b \<and> cfg \<in> set b))
        \<and> (\<forall>p \<in> set groups. fst p \<noteq> [])
        \<and> (\<forall>cfg \<in> set cfgs.
              \<exists>b. obj_get groups (effective_type cfg) = Some b \<and> cfg \<in> set b)
        \<and> mset (concat (map snd groups)) = mset cfgs"
    by blast
qed



text \<open>
  The theorem at a list with a config without a type and one with the empty type.
\<close>

theorem groupRepoLayers_other_bucket_witness:
  "list_all (\<lambda>c. \<not> inherited (effective_type c)) [cfg_untyped, cfg_zone, cfg_blank]
   \<and> \<not> truthy (ctype cfg_untyped) \<and> \<not> truthy (ctype cfg_blank)
   \<and> (\<exists>groups. groupRepoLayers [cfg_untyped, cfg_zone, cfg_blank] = Inr groups
         \<and> (\<exists>b. obj_get groups ''other'' = Some b \<and> cfg_untyped \<in> set b \<and> cfg_blank \<in> set b)
         \<and> list_all (\<lambda>p. fst p \<noteq> []) groups
         \<and> (\<exists>b. obj_get groups ''zone'' = Some b \<and> cfg_zone \<in> set b)
         \<and> mset (concat (map snd groups)) = mset [cfg_untyped, cfg_zone, cfg_blank])"
proof -
  let ?cfgs = "[cfg_untyped, cfg_zone, cfg_blank]"
  note grouped = groupRepoLayers_other_bucket [of ?cfgs]
  have plain: "\<forall>c \<in> set ?cfgs. \<not> inherited (effective_type c)"
    by (simp add: effective_type_examples inherited_examples)
  have falsy: "\<not> truthy (ctype cfg_untyped)" "\<not> truthy (ctype cfg_blank)"
    by (simp_all add: truthy_def cfg_untyped_def cfg_blank_def cfg_plain_def)
  from grouped plain obtain groups where g: "groupRepoLayers ?cfgs = Inr groups"
    "\<forall>cfg \<in> set ?cfgs. \<not> truthy (ctype cfg) \<longrightarrow>
        (\<exists>b. obj_get groups ''other'' = Some b \<and> cfg \<in> set b)"
    "\<forall>p \<in> set groups. fst p \<noteq> []"
    "\<forall>cfg \<in> set ?cfgs. \<exists>b. obj_get groups (effective_type cfg) = Some b \<and> cfg \<in> set b"
    "mset (concat (map snd groups)) = mset ?cfgs"
    by blast
  from g(2) falsy obtain b1 b2 where
    "obj_get groups ''other'' = Some b1" "cfg_untyped \<in> set b1"
    "obj_get groups ''other'' = Some b2" "cfg_blank \<in> set b2"
    by (metis list.set_intros(1) list.set_intros(2))
  then have other: "\<exists>b. obj_get groups ''other'' = Some b \<and> cfg_untyped \<in> set b \<and> cfg_blank \<in> set b"
    by auto
  from g(4) have zone: "\<exists>b. obj_get groups ''zone'' = Some b \<and> cfg_zone \<in> set b"
    by (metis effective_type_examples(4) list.set_intros(1) list.set_intros(2))
  from g(3) have keys: "list_all (\<lambda>p. fst p \<noteq> []) groups"
    by (simp add: list_all_iff)
  from g(1) other keys zone g(5) have "\<exists>groups. groupRepoLayers ?cfgs = Inr groups
         \<and> (\<exists>b. obj_get groups ''other'' = Some b \<and> cfg_untyped \<in> set b \<and> cfg_blank \<in> set b)
         \<and> list_all (\<lambda>p. fst p \<noteq> []) groups
         \<and> (\<exists>b. obj_get groups ''zone'' = Some b \<and> cfg_zone \<in> set b)
         \<and> mset (concat (map snd groups)) = mset ?cfgs"
    by blast
  with plain falsy show ?thesis by (simp add: list_all_iff)
qed

text \<open>
  A config without a type is not placed in any bucket when the list also holds a config
  of type \<^verbatim>\<open>"constructor"\<close>: the function throws and returns no object.
\<close>

theorem groupRepoLayers_untyped_dropped_counterexample:
  "ctype cfg_untyped = None
   \<and> groupRepoLayers [cfg_untyped, cfg_constructor] = Inl TypeError"
proof
  show "ctype cfg_untyped = None"
    by (simp add: cfg_untyped_def)
  show "groupRepoLayers [cfg_untyped, cfg_constructor] = Inl TypeError"
    by (simp add: groupRepoLayers_def push_group_def Let_def obj_read_def obj_get_def
        effective_type_examples inherited_examples)
qed

section \<open>CSV ingestion\<close>

lemma utmToLatLon32620_not_Inl: "utmToLatLon32620 proj e n \<noteq> Inl ex"
  by (auto simp: utmToLatLon32620_def try_catch_def split: option.splits proj_result.splits)

lemma csv_rows_eq:
  "csv_rows proj pf name rows markers feats =
     Inr (markers @ map (\<lambda>r. (the (normalised proj pf r), r)) (filter (row_accepted proj pf) rows),
          feats @ map (emitted proj pf name) (filter (row_accepted proj pf) rows))"
proof (induction rows arbitrary: markers feats)
  case Nil
  then show ?case by simp
next
  case (Cons r rows)
  show ?case
  proof (cases "utmToLatLon32620 proj (parseField pf r ''Easting'') (parseField pf r ''Northing'')")
    case (Inl ex)
    then show ?thesis by (simp add: utmToLatLon32620_not_Inl)
  next
    case (Inr res)
    then show ?thesis
      by (cases res) (simp_all add: Cons.IH Let_def row_accepted_def normalised_def emitted_def)
  qed
qed

lemma row_feature_properties:
  "obj_get (properties (row_feature name r ll)) ''__sourceFile'' = Some name"
  "obj_get (properties (row_feature name r ll)) ''__assumedCRS'' = Some ''EPSG:32620''"
  "k \<noteq> ''__sourceFile'' \<Longrightarrow> k \<noteq> ''__assumedCRS'' \<Longrightarrow>
     (k, v) \<in> set (properties (row_feature name r ll)) \<longleftrightarrow> (k, v) \<in> set r"
  by (simp_all add: row_feature_def obj_get_set set_obj_set_other set_for_in)

lemma digit_val_5211: "digit_val CHR ''5'' = 5" "digit_val CHR ''2'' = 2" "digit_val CHR ''1'' = 1"
  by (simp_all add: digit_val_def)

lemma pf_digits_examples:
  "pf_digits ''52'' = Finite 52" "pf_digits ''11'' = Finite 11" "pf_digits ''n/a'' = NaN"
  by (simp_all add: pf_digits_def is_digit_def str_nat_def digit_val_5211)

lemma parseField_examples:
  "parseField pf_digits row_good ''Easting'' = Num (Finite 52)"
  "parseField pf_digits row_good ''Northing'' = Num (Finite 11)"
  "parseField pf_digits row_bad ''Easting'' = Num NaN"
  "parseField pf_digits row_tagged ''Easting'' = Num (Finite 52)"
  "parseField pf_digits row_tagged ''Northing'' = Num (Finite 11)"
  by (simp_all add: parseField_def obj_get_def row_good_def row_bad_def row_tagged_def
      pf_digits_examples)

lemma for_in_rows: "for_in row_good = row_good" "for_in row_tagged = row_tagged"
  by (rule for_in_plain, simp add: row_good_def row_tagged_def not_array_index_letter is_digit_def)+

lemma utm_proj_ok:
  "utmToLatLon32620 (Some proj_ok) e n = Inr (Some \<lparr> lat = Num (Finite 10), lon = Num (Finite (-61)) \<rparr>)"
  by (simp add: utmToLatLon32620_def try_catch_def proj_ok_def)

lemma accepted_examples:
  "row_accepted (Some proj_ok) pf_digits row_good"
  "\<not> row_accepted (Some proj_ok) pf_digits row_bad"
  "row_accepted (Some proj_ok) pf_digits row_tagged"
  "normalised (Some proj_ok) pf_digits r = Some \<lparr> lat = Num (Finite 10), lon = Num (Finite (-61)) \<rparr>"
  by (simp_all add: row_accepted_def normalised_def parseField_examples utm_proj_ok)

text \<open>
  Claim C6, as the code has it. When PapaParse is present the handler returns, without
  throwing, one feature for each row, in order, for which \<^verbatim>\<open>Easting\<close> and \<^verbatim>\<open>Northing\<close>
  both parse to finite numbers and the normaliser returns a non-null result, and no
  feature for any other row. Each emitted feature is a point at the normalised
  \<^verbatim>\<open>[lon, lat]\<close>; its properties hold the tag \<^verbatim>\<open>__sourceFile\<close> with the file name, the
  tag \<^verbatim>\<open>__assumedCRS\<close> with \<^verbatim>\<open>"EPSG:32620"\<close>, and under every other name exactly the
  fields of the row. A column of the row named like one of the two tags is overwritten by
  the tag.
\<close>

theorem handleCsvUpload_features:
  "handleCsvUpload (Some parse) proj pf featureGroup file =
     Inr (Some \<lparr> ilayer = featureGroup (map (\<lambda>r. (the (normalised proj pf r), r))
                              (filter (row_accepted proj pf) (parse (ftext file)))),
                 ifeatures = map (emitted proj pf (fname file))
                              (filter (row_accepted proj pf) (parse (ftext file))) \<rparr>)
   \<and> (\<forall>r. row_accepted proj pf r \<longrightarrow>
        (\<exists>ll. utmToLatLon32620 proj (parseField pf r ''Easting'') (parseField pf r ''Northing'')
                = Inr (Some ll)
           \<and> ftype (emitted proj pf (fname file) r) = ''Feature''
           \<and> geometry (emitted proj pf (fname file) r)
                = \<lparr> gtype = ''Point'', coordinates = [lon ll, lat ll] \<rparr>)
      \<and> obj_get (properties (emitted proj pf (fname file) r)) ''__sourceFile'' = Some (fname file)
      \<and> obj_get (properties (emitted proj pf (fname file) r)) ''__assumedCRS'' = Some ''EPSG:32620''
      \<and> (\<forall>k v. k \<noteq> ''__sourceFile'' \<and> k \<noteq> ''__assumedCRS'' \<longrightarrow>
            ((k, v) \<in> set (properties (emitted proj pf (fname file) r)) \<longleftrightarrow> (k, v) \<in> set r)))"
proof (intro conjI allI impI)
  show "handleCsvUpload (Some parse) proj pf featureGroup file =
     Inr (Some \<lparr> ilayer = featureGroup (map (\<lambda>r. (the (normalised proj pf r), r))
                              (filter (row_accepted proj pf) (parse (ftext file)))),
                 ifeatures = map (emitted proj pf (fname file))
                              (filter (row_accepted proj pf) (parse (ftext file))) \<rparr>)"
    by (simp add: handleCsvUpload_def csv_rows_eq)
next
  fix r assume "row_accepted proj pf r"
  then obtain ll where ll: "normalised proj pf r = Some ll"
    by (auto simp: row_accepted_def)
  then have "utmToLatLon32620 proj (parseField pf r ''Easting'') (parseField pf r ''Northing'')
                = Inr (Some ll)"
    by (auto simp: normalised_def split: sum.splits option.splits)
  with ll show "\<exists>ll. utmToLatLon32620 proj (parseField pf r ''Easting'') (parseField pf r ''Northing'')
                = Inr (Some ll)
           \<and> ftype (emitted proj pf (fname file) r) = ''Feature''
           \<and> geometry (emitted proj pf (fname file) r)
                = \<lparr> gtype = ''Point'', coordinates = [lon ll, lat ll] \<rparr>"
    by (simp add: emitted_def row_feature_def)
next
  fix r
  show "obj_get (properties (emitted proj pf (fname file) r)) ''__sourceFile'' = Some (fname file)"
    by (simp add: emitted_def row_feature_properties)
  show "obj_get (properties (emitted proj pf (fname file) r)) ''__assumedCRS'' = Some ''EPSG:32620''"
    by (simp add: emitted_def row_feature_properties)
next
  fix r k v assume "k \<noteq> ''__sourceFile'' \<and> k \<noteq> ''__assumedCRS''"
  then show "(k, v) \<in> set (properties (emitted proj pf (fname file) r)) \<longleftrightarrow> (k, v) \<in> set r"
    by (simp add: emitted_def row_feature_properties)
qed


text \<open>
  A file with one good row and one row whose \<^verbatim>\<open>Easting\<close> does not parse.
\<close>

theorem handleCsvUpload_features_witness:
  "row_accepted (Some proj_ok) pf_digits row_good
   \<and> \<not> row_accepted (Some proj_ok) pf_digits row_bad
   \<and> handleCsvUpload (Some papa_sites) (Some proj_ok) pf_digits marker_count csv_sites =
       Inr (Some \<lparr> ilayer = 1,
                   ifeatures = [\<lparr> ftype = ''Feature'',
                     geometry = \<lparr> gtype = ''Point'',
                                  coordinates = [Num (Finite (-61)), Num (Finite 10)] \<rparr>,
                     properties = [(''Easting'', ''52''), (''Northing'', ''11''), (''Site'', ''A1''),
                                   (''__sourceFile'', ''sites.csv''),
                                   (''__assumedCRS'', ''EPSG:32620'')] \<rparr>] \<rparr>)
   \<and> obj_get (properties (emitted (Some proj_ok) pf_digits ''sites.csv'' row_good)) ''Site''
       = Some ''A1''"
proof -
  note csv = handleCsvUpload_features [of papa_sites "Some proj_ok" pf_digits marker_count csv_sites]
  have em: "emitted (Some proj_ok) pf_digits ''sites.csv'' row_good =
     \<lparr> ftype = ''Feature'',
       geometry = \<lparr> gtype = ''Point'', coordinates = [Num (Finite (-61)), Num (Finite 10)] \<rparr>,
       properties = [(''Easting'', ''52''), (''Northing'', ''11''), (''Site'', ''A1''),
                     (''__sourceFile'', ''sites.csv''), (''__assumedCRS'', ''EPSG:32620'')] \<rparr>"
    by (simp add: emitted_def accepted_examples row_feature_def for_in_rows) (simp add: row_good_def)
  from csv have "handleCsvUpload (Some papa_sites) (Some proj_ok) pf_digits marker_count csv_sites =
       Inr (Some \<lparr> ilayer = 1,
                   ifeatures = [emitted (Some proj_ok) pf_digits ''sites.csv'' row_good] \<rparr>)"
    by (simp add: papa_sites_def accepted_examples marker_count_def csv_sites_def)
  then show ?thesis
    by (simp add: em accepted_examples) (simp add: obj_get_def)
qed

text \<open>
  Not all original row properties survive: a row with a column \<^verbatim>\<open>__sourceFile\<close> of
  value \<^verbatim>\<open>"legacy.csv"\<close> yields a feature whose \<^verbatim>\<open>__sourceFile\<close> is the uploaded file's
  name.
\<close>

theorem handleCsvUpload_tag_overwrites_counterexample:
  "obj_get row_tagged ''__sourceFile'' = Some ''legacy.csv''
   \<and> handleCsvUpload (Some papa_tagged) (Some proj_ok) pf_digits marker_count csv_sites =
       Inr (Some \<lparr> ilayer = 1,
                   ifeatures = [\<lparr> ftype = ''Feature'',
                     geometry = \<lparr> gtype = ''Point'',
                                  coordinates = [Num (Finite (-61)), Num (Finite 10)] \<rparr>,
                     properties = [(''Easting'', ''52''), (''Northing'', ''11''),
                                   (''__sourceFile'', ''sites.csv''),
                                   (''__assumedCRS'', ''EPSG:32620'')] \<rparr>] \<rparr>)"
proof
  show "obj_get row_tagged ''__sourceFile'' = Some ''legacy.csv''"
    by (simp add: obj_get_def row_tagged_def)
  have "row_feature ''sites.csv'' row_tagged \<lparr> lat = Num (Finite 10), lon = Num (Finite (-61)) \<rparr> =
     \<lparr> ftype = ''Feature'',
       geometry = \<lparr> gtype = ''Point'', coordinates = [Num (Finite (-61)), Num (Finite (10::int))] \<rparr>,
       properties = [(''Easting'', ''52''), (''Northing'', ''11''),
                     (''__sourceFile'', ''sites.csv''), (''__assumedCRS'', ''EPSG:32620'')] \<rparr>"
    by (simp add: row_feature_def for_in_rows) (simp add: row_tagged_def)
  then show "handleCsvUpload (Some papa_tagged) (Some proj_ok) pf_digits marker_count csv_sites =
       Inr (Some \<lparr> ilayer = 1,
                   ifeatures = [\<lparr> ftype = ''Feature'',
                     geometry = \<lparr> gtype = ''Point'',
                                  coordinates = [Num (Finite (-61)), Num (Finite 10)] \<rparr>,
                     properties = [(''Easting'', ''52''), (''Northing'', ''11''),
                                   (''__sourceFile'', ''sites.csv''),
                                   (''__assumedCRS'', ''EPSG:32620'')] \<rparr>] \<rparr>)"
    by (simp add: handleCsvUpload_def papa_tagged_def parseField_examples utm_proj_ok
        marker_count_def csv_sites_def)
qed

section \<open>Facts about the preloader\<close>

lemma preload_one_fst: "fst (preload_one env (rp, evs) cfg) = step_repo env rp cfg"
  by (simp add: preload_one_def step_repo_def stored_entry_def Let_def
      split: loaded.splits sum.splits option.splits)

lemma preload_one_fst': "fst (preload_one env st cfg) = step_repo env (fst st) cfg"
  by (cases st) (simp add: preload_one_fst)

lemma preload_loop_fst: "fst (preload_loop env st cfgs) = foldl (step_repo env) (fst st) cfgs"
  unfolding preload_loop_def
  by (induction cfgs arbitrary: st) (simp_all add: preload_one_fst')

lemma obj_get_step_repo:
  "obj_get (step_repo env rp cfg) i =
     (case obj_get rp i of
        Some d \<Rightarrow> Some d
      | None \<Rightarrow> if cid cfg = i \<and> \<not> inherited i then stored_entry env cfg else None)"
  by (auto simp: step_repo_def obj_get_set obj_read_Missing split: option.splits)

lemma obj_get_foldl_step_repo:
  "obj_get (foldl (step_repo env) rp cfgs) i =
     (case obj_get rp i of
        Some d \<Rightarrow> Some d
      | None \<Rightarrow> if inherited i then None else first_stored env i cfgs)"
  by (induction cfgs arbitrary: rp) (auto simp: obj_get_step_repo split: option.splits)




lemma first_stored_Some:
  "first_stored env i cfgs = Some d \<Longrightarrow> \<exists>c \<in> set cfgs. cid c = i \<and> stored_entry env c = Some d"
  by (induction cfgs) (auto split: if_splits option.splits)


lemma obj_get_force_roads:
  "obj_get (force_roads rp) i =
     (case obj_get rp i of
        None \<Rightarrow> None
      | Some d \<Rightarrow> if i = ''major_roads'' \<and> layer d \<noteq> None then Some (d\<lparr>active := Some True\<rparr>)
                  else Some d)"
  by (auto simp: force_roads_def obj_get_set split: option.splits)




lemma preloadRepoLayers_split:
  "preloadRepoLayers env cfgs r =
     (r\<lparr>repo := force_roads (fst (preload_loop env (repo r, []) cfgs))\<rparr>,
      snd (preload_loop env (repo r, []) cfgs) @ [Dispatched ''layers:repoPreloaded''])"
  by (simp add: preloadRepoLayers_def split: prod.splits)

lemma repo_preloadRepoLayers:
  "repo (fst (preloadRepoLayers env cfgs r)) = force_roads (foldl (step_repo env) (repo r) cfgs)"
  "uploaded (fst (preloadRepoLayers env cfgs r)) = uploaded r"
  by (simp_all add: preloadRepoLayers_split preload_loop_fst)

section \<open>Preloading twice\<close>



lemma obj_get_force_roads_None: "obj_get (force_roads rp) i = None \<longleftrightarrow> obj_get rp i = None"
  by (simp add: obj_get_force_roads split: option.splits)




lemma preload_no_trace:
  assumes "obj_get rp i = None" "\<forall>c \<in> set cfgs. cid c = i \<longrightarrow> stored_entry env c = None"
  shows "obj_get (force_roads (foldl (step_repo env) rp cfgs)) i = None"
proof -
  have "first_stored env i cfgs = None"
  proof (cases "first_stored env i cfgs")
    case (Some d)
    with first_stored_Some [OF this] assms(2) show ?thesis by auto
  qed simp
  with assms(1) show ?thesis
    by (simp add: obj_get_force_roads_None obj_get_foldl_step_repo)
qed






section \<open>Failures while preloading\<close>

lemma stored_entry_failures:
  "load env cfg = FetchFails \<or> load env cfg = ParseFails \<or> load env cfg = BuildFails \<Longrightarrow>
     stored_entry env cfg = None"
  by (auto simp: stored_entry_def)

lemma step_repo_failed: "stored_entry env cfg = None \<Longrightarrow> step_repo env rp cfg = rp"
  by (simp add: step_repo_def)

lemma preload_one_events_mono: "set (snd st) \<subseteq> set (snd (preload_one env st cfg))"
  by (cases st) (auto simp: preload_one_def Let_def split: loaded.splits sum.splits option.splits)

lemma preload_one_fetches:
  "obj_read (fst st) (cid cfg) = Missing \<Longrightarrow>
     Fetched (curl cfg) \<in> set (snd (preload_one env st cfg))"
  by (cases st) (auto simp: preload_one_def Let_def split: loaded.splits sum.splits option.splits)

lemma preload_one_no_dispatch:
  "Dispatched s \<in> set (snd (preload_one env st cfg)) \<Longrightarrow> Dispatched s \<in> set (snd st)"
  by (cases st) (auto simp: preload_one_def Let_def split: loaded.splits sum.splits option.splits if_splits)

lemma preload_loop_events_mono: "set (snd st) \<subseteq> set (snd (preload_loop env st cfgs))"
  unfolding preload_loop_def
proof (induction cfgs arbitrary: st)
  case Nil
  then show ?case by simp
next
  case (Cons c cfgs)
  from preload_one_events_mono [of st env c] Cons [of "preload_one env st c"]
  show ?case by auto
qed

lemma preload_loop_no_dispatch:
  "Dispatched s \<in> set (snd (preload_loop env st cfgs)) \<Longrightarrow> Dispatched s \<in> set (snd st)"
  unfolding preload_loop_def
proof (induction cfgs arbitrary: st)
  case Nil
  then show ?case by simp
next
  case (Cons c cfgs)
  from Cons.prems have "Dispatched s \<in> set (snd (foldl (preload_one env) (preload_one env st c) cfgs))"
    by simp
  then have "Dispatched s \<in> set (snd (preload_one env st c))"
    by (rule Cons.IH)
  then show ?case by (rule preload_one_no_dispatch)
qed

lemma foldl_step_repo_keeps:
  "obj_get rp i \<noteq> None \<Longrightarrow> obj_get (foldl (step_repo env) rp cfgs) i \<noteq> None"
  by (auto simp: obj_get_foldl_step_repo)

lemma preload_loop_attempts:
  "c \<in> set cfgs \<Longrightarrow>
     Fetched (curl c) \<in> set (snd (preload_loop env st cfgs))
     \<or> obj_read (fst (preload_loop env st cfgs)) (cid c) \<noteq> Missing"
proof (induction cfgs arbitrary: st)
  case Nil
  then show ?case by simp
next
  case (Cons x cfgs)
  have unfold: "preload_loop env st (x # cfgs) = preload_loop env (preload_one env st x) cfgs"
    by (simp add: preload_loop_def)
  show ?case
  proof (cases "c \<in> set cfgs")
    case True
    with Cons.IH [of "preload_one env st x"] unfold show ?thesis by simp
  next
    case False
    with Cons.prems have cx: "c = x" by simp
    show ?thesis
    proof (cases "obj_read (fst st) (cid c) = Missing")
      case True
      then have "Fetched (curl c) \<in> set (snd (preload_one env st c))"
        by (rule preload_one_fetches)
      with preload_loop_events_mono [of "preload_one env st c" env cfgs] unfold cx
      show ?thesis by auto
    next
      case False
      show ?thesis
      proof (cases "inherited (cid c)")
        case True
        then show ?thesis by (simp add: obj_read_Missing)
      next
        case own: False
        with \<open>obj_read (fst st) (cid c) \<noteq> Missing\<close> have "obj_get (fst st) (cid c) \<noteq> None"
          by (simp add: obj_read_Missing)
        then have "obj_get (step_repo env (fst st) c) (cid c) \<noteq> None"
          by (auto simp: obj_get_step_repo)
        then have "obj_get (foldl (step_repo env) (step_repo env (fst st) c) cfgs) (cid c) \<noteq> None"
          by (rule foldl_step_repo_keeps)
        then show ?thesis
          unfolding unfold cx by (simp add: preload_loop_fst preload_one_fst' obj_read_Missing)
      qed
    qed
  qed
qed

lemma events_preloadRepoLayers:
  "snd (preloadRepoLayers env cfgs r)
     = snd (preload_loop env (repo r, []) cfgs) @ [Dispatched ''layers:repoPreloaded'']"
  by (simp add: preloadRepoLayers_split)

lemma count_list_absent: "x \<notin> set xs \<Longrightarrow> count_list xs x = 0"
  by (induction xs) auto

lemma count_list_append: "count_list (xs @ ys) x = count_list xs x + count_list ys x"
  by (induction xs) auto

text \<open>
  What does hold of failures: a config whose fetch, parse or build throws stores no entry;
  the iteration leaves the repo partition as it was and the loop goes on as if the config
  were not in the list. An id that was absent before, and all of whose configs fail in
  this way, has no entry after the run. Every config is fetched unless the read of its id
  in the repo partition is truthy. The events of a run are those of the loop followed by
  the notification \<^verbatim>\<open>layers:repoPreloaded\<close>, which occurs exactly once.
\<close>

lemma preload_failures_before_store:
  "(load env cfg = FetchFails \<or> load env cfg = ParseFails \<or> load env cfg = BuildFails \<longrightarrow>
      stored_entry env cfg = None \<and> fst (preload_one env (rp, evs) cfg) = rp)
   \<and> (stored_entry env cfg = None \<longrightarrow>
        fst (preload_loop env (rp, evs) (pre @ cfg # post))
          = fst (preload_loop env (rp, evs) (pre @ post)))
   \<and> (\<forall>c \<in> set cfgs.
        obj_get (repo r) (cid c) = None
        \<and> (\<forall>c' \<in> set cfgs. cid c' = cid c \<longrightarrow> stored_entry env c' = None) \<longrightarrow>
        obj_get (repo (fst (preloadRepoLayers env cfgs r))) (cid c) = None)
   \<and> (\<forall>c \<in> set cfgs.
        Fetched (curl c) \<in> set (snd (preloadRepoLayers env cfgs r))
        \<or> obj_read (repo (fst (preloadRepoLayers env cfgs r))) (cid c) \<noteq> Missing)
   \<and> snd (preloadRepoLayers env cfgs r)
        = snd (preload_loop env (repo r, []) cfgs) @ [Dispatched ''layers:repoPreloaded'']
   \<and> count_list (snd (preloadRepoLayers env cfgs r)) (Dispatched ''layers:repoPreloaded'') = 1"
proof (intro conjI impI ballI)
  assume f: "load env cfg = FetchFails \<or> load env cfg = ParseFails \<or> load env cfg = BuildFails"
  then show none: "stored_entry env cfg = None"
    by (rule stored_entry_failures)
  then show "fst (preload_one env (rp, evs) cfg) = rp"
    by (simp add: preload_one_fst step_repo_failed)
next
  assume "stored_entry env cfg = None"
  then show "fst (preload_loop env (rp, evs) (pre @ cfg # post))
          = fst (preload_loop env (rp, evs) (pre @ post))"
    by (simp add: preload_loop_fst step_repo_failed)
next
  fix c assume "c \<in> set cfgs" and
    "obj_get (repo r) (cid c) = None
      \<and> (\<forall>c' \<in> set cfgs. cid c' = cid c \<longrightarrow> stored_entry env c' = None)"
  then show "obj_get (repo (fst (preloadRepoLayers env cfgs r))) (cid c) = None"
    by (simp add: repo_preloadRepoLayers preload_no_trace)
next
  fix c assume "c \<in> set cfgs"
  from preload_loop_attempts [OF this, of env "(repo r, [])"]
  show "Fetched (curl c) \<in> set (snd (preloadRepoLayers env cfgs r))
        \<or> obj_read (repo (fst (preloadRepoLayers env cfgs r))) (cid c) \<noteq> Missing"
    by (auto simp: events_preloadRepoLayers repo_preloadRepoLayers preload_loop_fst
        obj_get_force_roads_None obj_read_Missing)
next
  show "snd (preloadRepoLayers env cfgs r)
        = snd (preload_loop env (repo r, []) cfgs) @ [Dispatched ''layers:repoPreloaded'']"
    by (rule events_preloadRepoLayers)
next
  have "Dispatched ''layers:repoPreloaded'' \<notin> set (snd (preload_loop env (repo r, []) cfgs))"
    using preload_loop_no_dispatch [of "''layers:repoPreloaded''" env "(repo r, [])" cfgs] by auto
  then show "count_list (snd (preloadRepoLayers env cfgs r)) (Dispatched ''layers:repoPreloaded'') = 1"
    by (simp add: events_preloadRepoLayers count_list_append count_list_absent)
qed

text \<open>
  Claim C8 at an input where the code departs from it. The build of the config
  \<^verbatim>\<open>parks\<close> returns features but no layer handle. The entry is stored (line 302), then
  reading \<^verbatim>\<open>built.layer.__ema\<close> throws (line 317) and the catch block warns that the
  preload of the layer failed: after the run the repo partition holds an entry for the
  config whose preload failed. The claim asks that a preload that fails at any point leave
  no entry.
\<close>

theorem preloadRepoLayers_layerless_build_leaves_entry:
  "preloadRepoLayers env_layerless [cfg_plain] reg_empty =
     (\<lparr> uploaded = [], repo = [(''parks'', repo_entry cfg_plain None [7, 8] None)] \<rparr>,
      [Fetched ''data/parks.geojson'', Warned ''Parks'', Dispatched ''layers:repoPreloaded''])"
proof -
  have one: "preload_one env_layerless ([], []) cfg_plain =
      ([(''parks'', repo_entry cfg_plain None [7, 8] None)],
       [Fetched ''data/parks.geojson'', Warned ''Parks''])"
    by (simp add: preload_one_def Let_def obj_read_def obj_get_def inherited_def
        object_prototype_def env_layerless_def computeLabelField_def built_feats_def truthy_def
        cfg_plain_def)
  then show ?thesis
    by (simp add: preloadRepoLayers_def preload_loop_def reg_empty_def force_roads_def
        obj_get_def)
qed

section \<open>The roads layer\<close>









section \<open>Removal of an uploaded layer\<close>

lemma obj_get_in_set: "obj_get ob k = Some v \<Longrightarrow> (k, v) \<in> set ob"
  by (simp add: obj_get_def map_of_SomeD)

lemma set_obj_set_subset: "set (obj_set ob k v) \<subseteq> insert (k, v) (set ob)"
  by (induction ob) (auto split: if_splits)

lemma part_features_obj_set:
  "part_features (obj_set ob k v) \<subseteq> part_features ob \<union> set (feature_list v)"
  using set_obj_set_subset [of ob k v] by (fastforce simp: part_features_def)

lemma part_features_obj_delete: "part_features (obj_delete ob k) \<subseteq> part_features ob"
  by (auto simp: part_features_def obj_delete_def)

lemma part_features_entry: "obj_get ob k = Some d \<Longrightarrow> set (feature_list d) \<subseteq> part_features ob"
  by (auto simp: part_features_def dest!: obj_get_in_set)

lemma part_features_set_active: "part_features (set_active part i isOn) \<subseteq> part_features part"
proof (cases "obj_read part i")
  case (Own d)
  then have get: "obj_get part i = Some d"
    by (simp add: obj_read_Own)
  have "feature_list (d\<lparr>active := Some isOn\<rparr>) = feature_list d"
    by (simp add: feature_list_def)
  with part_features_obj_set [of part i "d\<lparr>active := Some isOn\<rparr>"] part_features_entry [OF get]
  show ?thesis using Own by (auto simp: set_active_def)
qed (simp_all add: set_active_def)

lemma part_features_set_opacity: "part_features (set_opacity part i val) \<subseteq> part_features part"
proof (cases "obj_read part i")
  case (Own d)
  then have get: "obj_get part i = Some d"
    by (simp add: obj_read_Own)
  have "feature_list (d\<lparr>opacity := val\<rparr>) = feature_list d"
    by (simp add: feature_list_def)
  with part_features_obj_set [of part i "d\<lparr>opacity := val\<rparr>"] part_features_entry [OF get]
  show ?thesis using Own by (auto simp: set_opacity_def)
qed (simp_all add: set_opacity_def)

lemma part_features_force_roads: "part_features (force_roads rp) \<subseteq> part_features rp"
proof (cases "obj_get rp ''major_roads''")
  case None
  then show ?thesis by (simp add: force_roads_def)
next
  case (Some d)
  have "feature_list (d\<lparr>active := Some True\<rparr>) = feature_list d"
    by (simp add: feature_list_def)
  with part_features_obj_set [of rp "''major_roads''" "d\<lparr>active := Some True\<rparr>"]
    part_features_entry [OF Some]
  show ?thesis using Some by (auto simp: force_roads_def)
qed

lemma stored_entry_features:
  "stored_entry env cfg = Some d \<Longrightarrow> set (feature_list d) \<subseteq> loaded_features (load env cfg)"
  by (auto simp: stored_entry_def loaded_features_def repo_entry_def feature_list_def
      split: loaded.splits sum.splits)

lemma part_features_step_repo:
  "part_features (step_repo env rp cfg) \<subseteq> part_features rp \<union> loaded_features (load env cfg)"
proof (cases "stored_entry env cfg")
  case None
  then show ?thesis by (simp add: step_repo_def)
next
  case (Some d)
  with part_features_obj_set [of rp "cid cfg" d] stored_entry_features [OF Some]
  show ?thesis by (auto simp: step_repo_def)
qed

lemma part_features_foldl_step_repo:
  "part_features (foldl (step_repo env) rp cfgs)
     \<subseteq> part_features rp \<union> (\<Union>cfg \<in> set cfgs. loaded_features (load env cfg))"
proof (induction cfgs arbitrary: rp)
  case Nil
  then show ?case by simp
next
  case (Cons c cfgs)
  from Cons [of "step_repo env rp c"] part_features_step_repo [of env rp c]
  show ?case by auto
qed

lemma stored_features_apply_op:
  "stored_features (apply_op r op) \<subseteq> stored_features r \<union> op_features op"
proof (cases op)
  case (Upload guess rnd stamp name lyr feats)
  define i where "i = uid ''upload'' rnd stamp"
  show ?thesis
  proof (cases "computeLabelField guess upload_cfg feats")
    case (Inl ex)
    with Upload show ?thesis by (simp add: commit_upload_def)
  next
    case (Inr lf)
    have "set (feature_list (upload_entry i name lyr feats lf)) = op_features op"
      using Upload by (simp add: feature_list_def upload_entry_def split: option.splits)
    with part_features_obj_set [of "uploaded r" i "upload_entry i name lyr feats lf"]
    have "part_features (obj_set (uploaded r) i (upload_entry i name lyr feats lf))
        \<subseteq> part_features (uploaded r) \<union> op_features op"
      by simp
    with Upload Inr show ?thesis
      by (auto simp: stored_features_def commit_upload_def i_def)
  qed
next
  case (ToggleUploaded i isOn)
  with part_features_set_active [of "uploaded r" i isOn] show ?thesis
    by (auto simp: stored_features_def)
next
  case (SlideUploaded i val)
  with part_features_set_opacity [of "uploaded r" i val] show ?thesis
    by (auto simp: stored_features_def)
next
  case (RemoveUploaded i)
  with part_features_obj_delete [of "uploaded r" i] show ?thesis
    by (auto simp: stored_features_def onRemove_def split: lookup.splits)
next
  case (ToggleRepo i isOn)
  with part_features_set_active [of "repo r" i isOn] show ?thesis
    by (auto simp: stored_features_def)
next
  case (SlideRepo i val)
  with part_features_set_opacity [of "repo r" i val] show ?thesis
    by (auto simp: stored_features_def)
next
  case (Preload env cfgs)
  with part_features_force_roads [of "foldl (step_repo env) (repo r) cfgs"]
    part_features_foldl_step_repo [of env "repo r" cfgs]
  show ?thesis
    by (auto simp: stored_features_def repo_preloadRepoLayers)
qed

lemma stored_features_run_ops:
  "stored_features (run_ops r ops) \<subseteq> stored_features r \<union> (\<Union>op \<in> set ops. op_features op)"
  unfolding run_ops_def
proof (induction ops arbitrary: r)
  case Nil
  then show ?case by simp
next
  case (Cons op ops)
  from Cons [of "apply_op r op"] stored_features_apply_op [of r op]
  show ?case by auto
qed

lemma active_features_stored: "set (getAllActiveFeatures r) \<subseteq> stored_features r"
  by (auto simp: getAllActiveFeatures_concat active_entries_def stored_features_def
      part_features_def set_for_in)


lemma obj_get_obj_delete: "obj_get (obj_delete ob k) k = None"
  by (auto simp: obj_get_def obj_delete_def map_of_eq_None_iff)

lemma stored_features_onRemove:
  "obj_get (uploaded r) i = Some d \<Longrightarrow> stored_features (onRemove i r) = other_features r i"
  by (simp add: onRemove_def obj_read_def stored_features_def other_features_def obj_delete_def)

text \<open>
  Claim C4. Let the uploaded partition hold an entry under an id, active or not, and let
  \<^verbatim>\<open>onRemove\<close> delete it. Then the id is absent, and after any sequence of operations of
  this file (uploads, toggles, sliders, removals, preloads) the result of
  \<^verbatim>\<open>getAllActiveFeatures()\<close> holds only features that the other entries held at the time of
  the removal and features that the later uploads and preloads bring in. So none of the
  removed entry's features appears in it, those features being objects of their own: none
  of them was a feature of another entry at the time of the removal, and none comes with a
  later upload or preload.
\<close>

theorem removed_features_never_return:
  "obj_get (uploaded r) i = Some d \<longrightarrow>
     obj_get (uploaded (onRemove i r)) i = None
   \<and> set (getAllActiveFeatures (run_ops (onRemove i r) ops))
       \<subseteq> other_features r i \<union> (\<Union>op \<in> set ops. op_features op)
   \<and> (set (feature_list d)
         \<inter> (other_features r i \<union> (\<Union>op \<in> set ops. op_features op)) = {} \<longrightarrow>
       set (feature_list d) \<inter> set (getAllActiveFeatures (run_ops (onRemove i r) ops)) = {})"
proof
  assume present: "obj_get (uploaded r) i = Some d"
  then have gone: "obj_get (uploaded (onRemove i r)) i = None"
    by (simp add: onRemove_def obj_read_def obj_get_obj_delete)
  have "set (getAllActiveFeatures (run_ops (onRemove i r) ops))
       \<subseteq> stored_features (onRemove i r) \<union> (\<Union>op \<in> set ops. op_features op)"
    using active_features_stored [of "run_ops (onRemove i r) ops"]
      stored_features_run_ops [of "onRemove i r" ops]
    by (rule subset_trans)
  with present have bound: "set (getAllActiveFeatures (run_ops (onRemove i r) ops))
       \<subseteq> other_features r i \<union> (\<Union>op \<in> set ops. op_features op)"
    by (simp add: stored_features_onRemove)
  then have "set (feature_list d)
         \<inter> (other_features r i \<union> (\<Union>op \<in> set ops. op_features op)) = {} \<longrightarrow>
       set (feature_list d) \<inter> set (getAllActiveFeatures (run_ops (onRemove i r) ops)) = {}"
    by blast
  with gone bound show "obj_get (uploaded (onRemove i r)) i = None
   \<and> set (getAllActiveFeatures (run_ops (onRemove i r) ops))
       \<subseteq> other_features r i \<union> (\<Union>op \<in> set ops. op_features op)
   \<and> (set (feature_list d)
         \<inter> (other_features r i \<union> (\<Union>op \<in> set ops. op_features op)) = {} \<longrightarrow>
       set (feature_list d) \<inter> set (getAllActiveFeatures (run_ops (onRemove i r) ops)) = {})"
    by blast
qed

lemma removal_example:
  "obj_get (uploaded reg_named_ids) ''upload_a'' = Some (mk_entry ''upload_a'' True [1, 2])"
  "feature_list (mk_entry ''upload_a'' True [1, 2 :: nat]) = [1, 2]"
  "other_features reg_named_ids ''upload_a'' = {3, 4, 5}"
  "(\<Union>op \<in> set ops_after_removal. op_features op) = {7, 8, 9}"
     apply (simp add: reg_named_ids_def obj_get_def)
    apply (simp add: feature_list_def mk_entry_def)
   apply (simp add: other_features_def part_features_def reg_named_ids_def feature_list_def
      mk_entry_def)
   apply blast
  apply (simp add: ops_after_removal_def loaded_features_def env_mixed_def built_feats_def
      cfg_plain_def)
  apply blast
  done

lemma not_array_index_ids:
  "\<not> is_array_index ''upload_b''" "\<not> is_array_index ''upload_c0ffee_1700000000000''"
  "\<not> is_array_index ''zones''" "\<not> is_array_index ''major_roads''" "\<not> is_array_index ''parks''"
  by (simp_all add: not_array_index_letter is_digit_def)

lemma removal_example_state:
  "run_ops (onRemove ''upload_a'' reg_named_ids) ops_after_removal =
     \<lparr> uploaded = [(''upload_b'', mk_entry ''upload_b'' False [3]),
                   (''upload_c0ffee_1700000000000'',
                    (upload_entry ''upload_c0ffee_1700000000000'' ''c.csv'' (Some ()) (Some [9]) None)
                      \<lparr>active := Some True\<rparr>)],
       repo = [(''zones'', mk_entry ''zones'' True [4]),
               (''major_roads'', mk_entry ''major_roads'' True [5]),
               (''parks'', (repo_entry cfg_plain (Some ()) [7, 8] (Some ''name''))
                             \<lparr>active := Some True\<rparr>)] \<rparr>"
  by (simp add: run_ops_def ops_after_removal_def onRemove_def reg_named_ids_def obj_get_def
      obj_read_def inherited_def object_prototype_def uid_def
      obj_delete_def set_active_def commit_upload_def computeLabelField_def upload_cfg_def
      truthy_def repo_preloadRepoLayers preloadRepoLayers_split preload_loop_def preload_one_def
      Let_def env_mixed_def cfg_plain_def built_feats_def guess_name_def force_roads_def
      mk_entry_def)

lemma removal_example_result:
  "getAllActiveFeatures (run_ops (onRemove ''upload_a'' reg_named_ids) ops_after_removal)
     = [9, 4, 5, 7, 8]"
  unfolding removal_example_state
  by (simp add: getAllActiveFeatures_concat for_in_plain not_array_index_ids active_entries_def
      feature_list_def mk_entry_def upload_entry_def repo_entry_def)

text \<open>
  An active upload is removed; then its stale toggle fires, another file is uploaded and
  switched on, and a repo layer is preloaded and switched on.
\<close>

theorem removed_features_never_return_witness:
  "obj_get (uploaded reg_named_ids) ''upload_a'' = Some (mk_entry ''upload_a'' True [1, 2])
   \<and> active (mk_entry ''upload_a'' True [1, 2 :: nat]) = Some True
   \<and> set [1, 2] \<inter> (other_features reg_named_ids ''upload_a''
                        \<union> (\<Union>op \<in> set ops_after_removal. op_features op)) = {}
   \<and> obj_get (uploaded (onRemove ''upload_a'' reg_named_ids)) ''upload_a'' = None
   \<and> set [1, 2] \<inter> set (getAllActiveFeatures
                          (run_ops (onRemove ''upload_a'' reg_named_ids) ops_after_removal)) = {}
   \<and> getAllActiveFeatures (run_ops (onRemove ''upload_a'' reg_named_ids) ops_after_removal)
       = [9, 4, 5, 7, 8]"
proof -
  note removed = removed_features_never_return
    [of reg_named_ids "''upload_a''" "mk_entry ''upload_a'' True [1, 2]" ops_after_removal]
  have apart: "set [1, 2] \<inter> (other_features reg_named_ids ''upload_a''
                        \<union> (\<Union>op \<in> set ops_after_removal. op_features op)) = {}"
    by (simp add: removal_example)
  have on: "active (mk_entry ''upload_a'' True [1, 2 :: nat]) = Some True"
    by (simp add: mk_entry_def)
  from removed removal_example(1) have
    "obj_get (uploaded (onRemove ''upload_a'' reg_named_ids)) ''upload_a'' = None"
    and "set (feature_list (mk_entry ''upload_a'' True [1, 2]))
         \<inter> (other_features reg_named_ids ''upload_a''
              \<union> (\<Union>op \<in> set ops_after_removal. op_features op)) = {} \<longrightarrow>
       set (feature_list (mk_entry ''upload_a'' True [1, 2]))
         \<inter> set (getAllActiveFeatures
                 (run_ops (onRemove ''upload_a'' reg_named_ids) ops_after_removal)) = {}"
    by blast+
  with apart removal_example(1,2) on removal_example_result show ?thesis by simp
qed

end
